theory Spec2Isabelle
  imports Main "HOL-Library.Finite_Map" "HOL-Library.AList" "HOL-Library.Multiset"
    "HOL-Library.Char_ord" "HOL-Library.List_Lexorder"
begin

section \<open>Values of the mock API server\<close>

text \<open>
  The server (\<^verbatim>\<open>createMockServer\<close>) keeps \<^verbatim>\<open>data: Record<string, any[]>\<close> in memory, loaded
  with \<^verbatim>\<open>JSON.parse\<close> from the data file, and serves six routes per resource.

  A number is a double whose value is an integer (\<open>Fin\<close>), \<^verbatim>\<open>NaN\<close> or an infinity; fractions
  are not modelled. The integers from \<open>-2^53\<close> to \<open>2^53\<close> are all doubles, and an addition,
  subtraction or multiplication of two of them is exact when its result is one of them too.
  What the engine does beyond that range (rounding, printing, overflow) is not computed here
  but taken from the parameters \<open>double_arith\<close>, \<open>Number_toString\<close> and \<open>parseInt_beyond\<close>
  below. A string is a list of characters with codes below 256, each read as the UTF-16 code
  unit of that value.
\<close>

datatype jsnum = Fin int | NaN | PosInf | NegInf

definition exact_int :: "int \<Rightarrow> bool" where
  "exact_int n = (- (2 ^ 53) \<le> n \<and> n \<le> 2 ^ 53)"

text \<open>
  An object is a finite map from the names of its own properties to their values; the
  enumeration order of the properties is not modelled. \<open>JFun name\<close> is a built-in function,
  which the code meets only as a member a record inherits from \<^verbatim>\<open>Object.prototype\<close>.
\<close>

datatype json =
    JNull
  | JBool bool
  | JNum jsnum
  | JStr string
  | JArr "json list"
  | JObj "(string, json) fmap"
  | JFun string

text \<open>
  A record of a collection is an object, as the data file format of the README has it, and
  the store, at the declared type of \<^verbatim>\<open>data\<close>, keeps its resources in the order of
  \<^verbatim>\<open>Object.keys(data)\<close>.
\<close>

type_synonym item = "(string, json) fmap"

type_synonym DataStore = "(string \<times> item list) list"

text \<open>
  The backing file as \<^verbatim>\<open>loadData\<close> sees it: absent (\<^verbatim>\<open>existsSync\<close> is false), present but
  \<^verbatim>\<open>readFileSync\<close> throws, or present with a content.
\<close>

datatype file_state = Missing | Unreadable | Content string

subsection \<open>What is taken from the engine and the file system\<close>

text \<open>
  The parts of the language and of its environment that are taken as given:
  \<^item> \<open>StringToNumber\<close>, the conversion of a string to a number;
  \<^item> \<open>Number_toString\<close>, the printing of an integer beyond \<open>\<plusminus>2^53\<close>, and
    \<open>Function_toString\<close>, the printing of the built-in function of a name;
  \<^item> \<open>parseInt_beyond\<close>, the result of \<^verbatim>\<open>parseInt\<close> on a string whose digits denote an integer
    beyond \<open>\<plusminus>2^53\<close> (a rounded double, or an infinity);
  \<^item> \<open>double_arith\<close>, the arithmetic of doubles where it is not exact integer arithmetic;
  \<^item> \<open>sort_inconsistent\<close>, what \<^verbatim>\<open>Array.prototype.sort\<close> returns for a comparator that is not
    consistent (the order is implementation-defined then);
  \<^item> \<open>RegExp_match\<close>, for \<^verbatim>\<open>subject.match(new RegExp(source))\<close> where the source holds a
    resource name with regular-expression metacharacters (\<open>None\<close> for no match, otherwise
    the first group);
  \<^item> \<open>spread_limit\<close>, the number of arguments beyond which a call with a spread array throws
    a \<^verbatim>\<open>RangeError\<close>;
  \<^item> \<open>JSON_parse\<close> on a request body, and \<open>JSON_parse_data\<close> on the content of the data file,
    with \<open>None\<close> for a thrown \<^verbatim>\<open>SyntaxError\<close>; the type \<open>'d\<close> of the value the file parses to is
    left open, since \<^verbatim>\<open>loadData\<close> assigns whatever \<^verbatim>\<open>JSON.parse\<close> returns;
  \<^item> \<open>JSON_stringify\<close>, for \<^verbatim>\<open>JSON.stringify(data, null, 2)\<close>;
  \<^item> \<open>writeFileSync_throws\<close>, whether writing a text over the file in a given state throws.
\<close>

datatype arith = Add | Sub | Mul

record 'd builtins =
  StringToNumber :: "string \<Rightarrow> jsnum"
  Number_toString :: "int \<Rightarrow> string"
  Function_toString :: "string \<Rightarrow> string"
  parseInt_beyond :: "string \<Rightarrow> jsnum"
  double_arith :: "arith \<Rightarrow> jsnum \<Rightarrow> jsnum \<Rightarrow> jsnum"
  sort_inconsistent :: "(item \<Rightarrow> item \<Rightarrow> int) \<Rightarrow> item list \<Rightarrow> item list"
  RegExp_match :: "string \<Rightarrow> string \<Rightarrow> string option option"
  spread_limit :: nat
  JSON_parse :: "string \<Rightarrow> json option"
  JSON_parse_data :: "string \<Rightarrow> 'd option"
  JSON_stringify :: "'d \<Rightarrow> string"
  writeFileSync_throws :: "file_state \<Rightarrow> string \<Rightarrow> bool"

subsection \<open>Language built-ins the handlers use\<close>

text \<open>\<^verbatim>\<open>ToBoolean\<close>, as used by \<^verbatim>\<open>||\<close>, \<^verbatim>\<open>!\<close> and \<^verbatim>\<open>if\<close>.\<close>

fun truthy :: "json \<Rightarrow> bool" where
  "truthy JNull = False"
| "truthy (JBool b) = b"
| "truthy (JNum (Fin n)) = (n \<noteq> 0)"
| "truthy (JNum NaN) = False"
| "truthy (JNum PosInf) = True"
| "truthy (JNum NegInf) = True"
| "truthy (JStr s) = (s \<noteq> [])"
| "truthy (JArr xs) = True"
| "truthy (JObj m) = True"
| "truthy (JFun f) = True"

text \<open>
  Decimal digits of a natural number, and \<^verbatim>\<open>Number.prototype.toString\<close> on an integer within
  \<open>\<plusminus>2^53\<close> (it also prints array lengths and indices, which are below \<open>2^32\<close>).
\<close>

fun digits :: "nat \<Rightarrow> string" where
  "digits n =
     (if n < 10 then [''0123456789'' ! n]
      else digits (n div 10) @ [''0123456789'' ! (n mod 10)])"

declare digits.simps [simp del]

definition string_of_int :: "int \<Rightarrow> string" where
  "string_of_int n = (if n < 0 then CHR ''-'' # digits (nat (- n)) else digits (nat n))"

fun join_comma :: "string list \<Rightarrow> string" where
  "join_comma [] = []"
| "join_comma [s] = s"
| "join_comma (s # t # ss) = s @ CHR '','' # join_comma (t # ss)"

text \<open>
  \<^verbatim>\<open>String(v)\<close> on a defined value. An array is its elements joined by commas, where
  \<^verbatim>\<open>null\<close> elements give the empty string; an object is \<^verbatim>\<open>[object Object]\<close>.
\<close>

fun ToString :: "'d builtins \<Rightarrow> json \<Rightarrow> string" where
  "ToString B JNull = ''null''"
| "ToString B (JBool b) = (if b then ''true'' else ''false'')"
| "ToString B (JNum (Fin n)) = (if exact_int n then string_of_int n else Number_toString B n)"
| "ToString B (JNum NaN) = ''NaN''"
| "ToString B (JNum PosInf) = ''Infinity''"
| "ToString B (JNum NegInf) = ''-Infinity''"
| "ToString B (JStr s) = s"
| "ToString B (JArr xs) = join_comma (map (\<lambda>x. if x = JNull then [] else ToString B x) xs)"
| "ToString B (JObj m) = ''[object Object]''"
| "ToString B (JFun f) = Function_toString B f"

text \<open>\<^verbatim>\<open>String(item[key])\<close>: the property may be missing.\<close>

definition String_prop :: "'d builtins \<Rightarrow> json option \<Rightarrow> string" where
  "String_prop B v = (case v of None \<Rightarrow> ''undefined'' | Some x \<Rightarrow> ToString B x)"

text \<open>
  \<^verbatim>\<open>item[key]\<close> on a record: its own property of that name, or else the member it inherits
  from \<^verbatim>\<open>Object.prototype\<close> (\<^verbatim>\<open>__proto__\<close> reads as \<^verbatim>\<open>Object.prototype\<close> itself, an object
  without enumerable properties), or else \<^verbatim>\<open>undefined\<close> (\<open>None\<close>).
\<close>

definition Object_prototype :: "string \<Rightarrow> json option" where
  "Object_prototype key =
     (if key = ''constructor'' then Some (JFun ''Object'')
      else if key = ''__proto__'' then Some (JObj fmempty)
      else if key \<in> set [''__defineGetter__'', ''__defineSetter__'', ''hasOwnProperty'',
                ''__lookupGetter__'', ''__lookupSetter__'', ''isPrototypeOf'',
                ''propertyIsEnumerable'', ''toString'', ''valueOf'', ''toLocaleString'']
      then Some (JFun key)
      else None)"

definition get_prop :: "item \<Rightarrow> string \<Rightarrow> json option" where
  "get_prop i key = (case fmlookup i key of Some v \<Rightarrow> Some v | None \<Rightarrow> Object_prototype key)"

text \<open>\<^verbatim>\<open>ToNumber\<close>; an array, an object or a function goes through its string form first.\<close>

definition ToNumber :: "'d builtins \<Rightarrow> json \<Rightarrow> jsnum" where
  "ToNumber B v =
     (case v of
        JNull \<Rightarrow> Fin 0
      | JBool b \<Rightarrow> Fin (if b then 1 else 0)
      | JNum n \<Rightarrow> n
      | JStr s \<Rightarrow> StringToNumber B s
      | JArr xs \<Rightarrow> StringToNumber B (ToString B (JArr xs))
      | JObj m \<Rightarrow> NaN
      | JFun f \<Rightarrow> StringToNumber B (ToString B (JFun f)))"

text \<open>
  \<^verbatim>\<open>Math.max\<close>: \<^verbatim>\<open>NaN\<close> if an argument is \<^verbatim>\<open>NaN\<close>, otherwise the largest argument, and
  \<open>-\<infinity>\<close> when there is none.
\<close>

fun jsmax :: "jsnum \<Rightarrow> jsnum \<Rightarrow> jsnum" where
  "jsmax NaN y = NaN"
| "jsmax x NaN = NaN"
| "jsmax PosInf y = PosInf"
| "jsmax x PosInf = PosInf"
| "jsmax NegInf y = y"
| "jsmax x NegInf = x"
| "jsmax (Fin a) (Fin b) = Fin (max a b)"

definition Math_max :: "jsnum list \<Rightarrow> jsnum" where
  "Math_max xs = foldl jsmax NegInf xs"

text \<open>
  \<^verbatim>\<open>a + b\<close>, \<^verbatim>\<open>a - b\<close> and \<^verbatim>\<open>a * b\<close> on numbers: \<^verbatim>\<open>NaN\<close> when an operand is \<^verbatim>\<open>NaN\<close>, exact on
  integers within \<open>\<plusminus>2^53\<close> whose result is within that range, and the engine's double
  arithmetic otherwise.
\<close>

fun arith_int :: "arith \<Rightarrow> int \<Rightarrow> int \<Rightarrow> int" where
  "arith_int Add x y = x + y"
| "arith_int Sub x y = x - y"
| "arith_int Mul x y = x * y"

fun js_arith :: "'d builtins \<Rightarrow> arith \<Rightarrow> jsnum \<Rightarrow> jsnum \<Rightarrow> jsnum" where
  "js_arith B op NaN b = NaN"
| "js_arith B op a NaN = NaN"
| "js_arith B op (Fin x) (Fin y) =
     (if exact_int x \<and> exact_int y \<and> exact_int (arith_int op x y)
      then Fin (arith_int op x y)
      else double_arith B op (Fin x) (Fin y))"
| "js_arith B op a b = double_arith B op a b"

text \<open>
  The object spread \<^verbatim>\<open>...body\<close> copies the own enumerable properties of the value: those of
  an object, the indexed elements of an array, the indexed characters of a string, and
  nothing for \<^verbatim>\<open>undefined\<close> (\<open>None\<close>: the handler parameter \<^verbatim>\<open>body?: any\<close> is optional),
  \<^verbatim>\<open>null\<close>, a boolean, a number or a built-in function.
\<close>

definition index_keys :: "nat \<Rightarrow> string list" where
  "index_keys n = map digits [0..<n]"

definition spread :: "json option \<Rightarrow> (string, json) fmap" where
  "spread v =
     (case v of
        Some (JObj m) \<Rightarrow> m
      | Some (JArr xs) \<Rightarrow> fmap_of_list (zip (index_keys (length xs)) xs)
      | Some (JStr s) \<Rightarrow> fmap_of_list (zip (index_keys (length s)) (map (\<lambda>c. JStr [c]) s))
      | _ \<Rightarrow> fmempty)"

section \<open>The server: options, state, responses\<close>

text \<open>\<^verbatim>\<open>MockApiOptions\<close> after the defaults of \<^verbatim>\<open>createMockServer\<close> have been filled in.\<close>

record MockApiOptions =
  port :: nat
  delay :: nat
  cors :: bool
  watch :: bool
  readonly :: bool

text \<open>
  The mutable state: the variable \<^verbatim>\<open>data\<close> and the backing file. The handlers read \<^verbatim>\<open>data\<close> at
  its declared type, \<open>DataStore\<close>.
\<close>

record 'd server_state =
  data :: 'd
  dataFile :: file_state

text \<open>
  A \<^verbatim>\<open>ServerResponse\<close>: status code, headers set so far, and the value handed to
  \<^verbatim>\<open>JSON.stringify\<close> by \<^verbatim>\<open>sendJson\<close> (\<open>None\<close> when the response ends with no body).
\<close>

record response =
  statusCode :: nat
  headers :: "(string \<times> string) list"
  payload :: "json option"

definition setHeader :: "string \<Rightarrow> string \<Rightarrow> response \<Rightarrow> response" where
  "setHeader name v res = res\<lparr>headers := AList.update name v (headers res)\<rparr>"

definition sendJson :: "response \<Rightarrow> nat \<Rightarrow> json \<Rightarrow> response" where
  "sendJson res st d =
     (setHeader ''Content-Type'' ''application/json'' (res\<lparr>statusCode := st\<rparr>))\<lparr>payload := Some d\<rparr>"

definition error_body :: "string \<Rightarrow> json" where
  "error_body msg = JObj (fmupd ''error'' (JStr msg) fmempty)"

text \<open>
  An exception that leaves a handler is caught nowhere and ends the process, so a handler
  either throws (\<open>Inl\<close>) or returns the response it has sent and the state it leaves
  (\<open>Inr\<close>).
\<close>

datatype js_error = TypeError | RangeError | WriteError

subsection \<open>\<^verbatim>\<open>loadData\<close>, \<^verbatim>\<open>saveData\<close> and the watch callback\<close>

datatype load_error = DataFileNotFound | ReadFailed | ParseFailed

definition loadData :: "'d builtins \<Rightarrow> 'd server_state \<Rightarrow> load_error + 'd server_state" where
  "loadData B s =
     (case dataFile s of
        Missing \<Rightarrow> Inl DataFileNotFound
      | Unreadable \<Rightarrow> Inl ReadFailed
      | Content c \<Rightarrow>
          (case JSON_parse_data B c of
             None \<Rightarrow> Inl ParseFailed
           | Some d \<Rightarrow> Inr (s\<lparr>data := d\<rparr>)))"

definition saveData ::
  "'d builtins \<Rightarrow> MockApiOptions \<Rightarrow> 'd server_state \<Rightarrow> js_error + 'd server_state" where
  "saveData B opts s =
     (if \<not> readonly opts
      then
        (if writeFileSync_throws B (dataFile s) (JSON_stringify B (data s))
         then Inl WriteError
         else Inr (s\<lparr>dataFile := Content (JSON_stringify B (data s))\<rparr>))
      else Inr s)"

text \<open>
  The callback given to \<^verbatim>\<open>watchFile\<close>: \<^verbatim>\<open>loadData\<close> inside \<^verbatim>\<open>try\<close>/\<^verbatim>\<open>catch\<close>. It returns the
  state and the line it logs.
\<close>

definition watch_callback :: "'d builtins \<Rightarrow> 'd server_state \<Rightarrow> 'd server_state \<times> string" where
  "watch_callback B s =
     (case loadData B s of
        Inr s' \<Rightarrow> (s', ''Data reloaded'')
      | Inl e \<Rightarrow> (s, ''Failed to reload data:''))"

section \<open>Route handlers\<close>

text \<open>
  \<^verbatim>\<open>const items = data[resource] || []\<close>, and what becomes of it. When the store has no
  property of the name, \<^verbatim>\<open>data[resource]\<close> is the member of that name inherited from
  \<^verbatim>\<open>Object.prototype\<close>, if there is one: it is truthy and has none of the array methods, so
  every handler throws a \<^verbatim>\<open>TypeError\<close> at its first call of one (\<^verbatim>\<open>filter\<close>, \<^verbatim>\<open>slice\<close>, \<^verbatim>\<open>find\<close>,
  \<^verbatim>\<open>findIndex\<close>, \<^verbatim>\<open>map\<close> or \<^verbatim>\<open>push\<close>), before the store is touched. Otherwise it is
  \<^verbatim>\<open>undefined\<close> and \<^verbatim>\<open>items\<close> is a new empty array.
\<close>

definition get_items :: "DataStore \<Rightarrow> string \<Rightarrow> js_error + item list" where
  "get_items d resource =
     (case map_of d resource of
        Some xs \<Rightarrow> Inr xs
      | None \<Rightarrow> (case Object_prototype resource of Some m \<Rightarrow> Inl TypeError | None \<Rightarrow> Inr []))"

text \<open>\<^verbatim>\<open>data[resource] = items\<close>.\<close>

definition set_items :: "string \<Rightarrow> item list \<Rightarrow> DataStore server_state \<Rightarrow> DataStore server_state" where
  "set_items resource xs s = s\<lparr>data := AList.update resource xs (data s)\<rparr>"

text \<open>\<^verbatim>\<open>String(i.id) === params.id\<close> (where \<^verbatim>\<open>params.id\<close> is \<open>None\<close> when the route pattern has no
  group), \<^verbatim>\<open>items.find\<close> and \<^verbatim>\<open>items.findIndex\<close> (\<open>None\<close> for \<open>-1\<close>).\<close>

definition id_matches :: "'d builtins \<Rightarrow> string option \<Rightarrow> item \<Rightarrow> bool" where
  "id_matches B pid i = (Some (String_prop B (get_prop i ''id'')) = pid)"

fun findIndex :: "('a \<Rightarrow> bool) \<Rightarrow> 'a list \<Rightarrow> nat option" where
  "findIndex P [] = None"
| "findIndex P (x # xs) =
     (if P x then Some 0 else (case findIndex P xs of None \<Rightarrow> None | Some k \<Rightarrow> Some (Suc k)))"

text \<open>
  \<^verbatim>\<open>items.length > 0 ? Math.max(...items.map(i => i.id || 0)) + 1 : 1\<close>. \<^verbatim>\<open>Math.max\<close> converts
  each argument with \<^verbatim>\<open>ToNumber\<close>; the call with the spread array throws a \<^verbatim>\<open>RangeError\<close> when the
  array is longer than the engine allows.
\<close>

definition id_or_0 :: "item \<Rightarrow> json" where
  "id_or_0 i =
     (case get_prop i ''id'' of
        None \<Rightarrow> JNum (Fin 0)
      | Some v \<Rightarrow> if truthy v then v else JNum (Fin 0))"

definition newId :: "'d builtins \<Rightarrow> item list \<Rightarrow> js_error + jsnum" where
  "newId B items =
     (if length items > 0
      then
        (if spread_limit B < length items then Inl RangeError
         else Inr (js_arith B Add (Math_max (map (\<lambda>i. ToNumber B (id_or_0 i)) items)) (Fin 1)))
      else Inr (Fin 1))"

definition readonly_error :: json where
  "readonly_error = error_body ''Server is in read-only mode''"

definition not_found :: json where
  "not_found = error_body ''Not found''"

text \<open>\<^verbatim>\<open>POST /resource\<close>: create. \<^verbatim>\<open>newItem = { id: newId, ...body }\<close>.\<close>

definition post_handler ::
  "DataStore builtins \<Rightarrow> MockApiOptions \<Rightarrow> string \<Rightarrow> json option \<Rightarrow> response
     \<Rightarrow> DataStore server_state \<Rightarrow> js_error + response \<times> DataStore server_state" where
  "post_handler B opts resource body res s =
     (if readonly opts then Inr (sendJson res 403 readonly_error, s)
      else
        (case get_items (data s) resource of
           Inl e \<Rightarrow> Inl e
         | Inr items \<Rightarrow>
             (case newId B items of
                Inl e \<Rightarrow> Inl e
              | Inr nid \<Rightarrow>
                  let newItem = fmupd ''id'' (JNum nid) fmempty ++\<^sub>f spread body in
                  (case saveData B opts (set_items resource (items @ [newItem]) s) of
                     Inl e \<Rightarrow> Inl e
                   | Inr s' \<Rightarrow> Inr (sendJson res 201 (JObj newItem), s')))))"

text \<open>
  \<^verbatim>\<open>{ id: items[idx].id, ...body }\<close>: when the stored record has no \<^verbatim>\<open>id\<close>, the property is
  \<^verbatim>\<open>undefined\<close>, which reads like a missing one and is left out by \<^verbatim>\<open>JSON.stringify\<close>.
\<close>

definition id_only :: "item \<Rightarrow> item" where
  "id_only old = (case get_prop old ''id'' of None \<Rightarrow> fmempty | Some v \<Rightarrow> fmupd ''id'' v fmempty)"

text \<open>\<^verbatim>\<open>PUT /resource/:id\<close>: replace.\<close>

definition put_handler ::
  "DataStore builtins \<Rightarrow> MockApiOptions \<Rightarrow> string \<Rightarrow> string option \<Rightarrow> json option \<Rightarrow> response
     \<Rightarrow> DataStore server_state \<Rightarrow> js_error + response \<times> DataStore server_state" where
  "put_handler B opts resource pid body res s =
     (if readonly opts then Inr (sendJson res 403 readonly_error, s)
      else
        (case get_items (data s) resource of
           Inl e \<Rightarrow> Inl e
         | Inr items \<Rightarrow>
             (case findIndex (id_matches B pid) items of
                None \<Rightarrow> Inr (sendJson res 404 not_found, s)
              | Some idx \<Rightarrow>
                  let updated = id_only (items ! idx) ++\<^sub>f spread body in
                  (case saveData B opts (set_items resource (items[idx := updated]) s) of
                     Inl e \<Rightarrow> Inl e
                   | Inr s' \<Rightarrow> Inr (sendJson res 200 (JObj updated), s')))))"

text \<open>\<^verbatim>\<open>PATCH /resource/:id\<close>: partial update. \<^verbatim>\<open>updated = { ...items[idx], ...body }\<close>.\<close>

definition patch_handler ::
  "DataStore builtins \<Rightarrow> MockApiOptions \<Rightarrow> string \<Rightarrow> string option \<Rightarrow> json option \<Rightarrow> response
     \<Rightarrow> DataStore server_state \<Rightarrow> js_error + response \<times> DataStore server_state" where
  "patch_handler B opts resource pid body res s =
     (if readonly opts then Inr (sendJson res 403 readonly_error, s)
      else
        (case get_items (data s) resource of
           Inl e \<Rightarrow> Inl e
         | Inr items \<Rightarrow>
             (case findIndex (id_matches B pid) items of
                None \<Rightarrow> Inr (sendJson res 404 not_found, s)
              | Some idx \<Rightarrow>
                  let updated = (items ! idx) ++\<^sub>f spread body in
                  (case saveData B opts (set_items resource (items[idx := updated]) s) of
                     Inl e \<Rightarrow> Inl e
                   | Inr s' \<Rightarrow> Inr (sendJson res 200 (JObj updated), s')))))"

text \<open>\<^verbatim>\<open>DELETE /resource/:id\<close>: \<^verbatim>\<open>items.splice(idx, 1)\<close>.\<close>

definition delete_handler ::
  "DataStore builtins \<Rightarrow> MockApiOptions \<Rightarrow> string \<Rightarrow> string option \<Rightarrow> response
     \<Rightarrow> DataStore server_state \<Rightarrow> js_error + response \<times> DataStore server_state" where
  "delete_handler B opts resource pid res s =
     (if readonly opts then Inr (sendJson res 403 readonly_error, s)
      else
        (case get_items (data s) resource of
           Inl e \<Rightarrow> Inl e
         | Inr items \<Rightarrow>
             (case findIndex (id_matches B pid) items of
                None \<Rightarrow> Inr (sendJson res 404 not_found, s)
              | Some idx \<Rightarrow>
                  (case saveData B opts
                          (set_items resource (take idx items @ drop (Suc idx) items) s) of
                     Inl e \<Rightarrow> Inl e
                   | Inr s' \<Rightarrow> Inr (sendJson res 200 (JObj fmempty), s')))))"

text \<open>\<^verbatim>\<open>GET /resource/:id\<close>: the first record whose id matches.\<close>

definition get_one_handler ::
  "DataStore builtins \<Rightarrow> string \<Rightarrow> string option \<Rightarrow> response \<Rightarrow> DataStore server_state
     \<Rightarrow> js_error + response" where
  "get_one_handler B resource pid res s =
     (case get_items (data s) resource of
        Inl e \<Rightarrow> Inl e
      | Inr items \<Rightarrow>
          (case find (id_matches B pid) items of
             None \<Rightarrow> Inr (sendJson res 404 not_found)
           | Some i \<Rightarrow> Inr (sendJson res 200 (JObj i))))"

subsection \<open>The list handler: filter, paginate, sort\<close>

text \<open>
  \<^verbatim>\<open>url.query\<close>, as \<^verbatim>\<open>parse(req.url, true)\<close> gives it: each key with one string, or with an array
  of strings when the key is repeated. \<open>qString\<close> is \<^verbatim>\<open>String(value)\<close> on such a value, also
  when it is missing; \<open>qtruthy\<close> is its \<^verbatim>\<open>ToBoolean\<close>.
\<close>

datatype qval = QStr string | QArr "string list"

type_synonym query = "(string \<times> qval) list"

definition qString :: "qval option \<Rightarrow> string" where
  "qString v =
     (case v of None \<Rightarrow> ''undefined'' | Some (QStr s) \<Rightarrow> s | Some (QArr ss) \<Rightarrow> join_comma ss)"

definition qtruthy :: "qval option \<Rightarrow> bool" where
  "qtruthy v = (case v of None \<Rightarrow> False | Some (QStr s) \<Rightarrow> s \<noteq> [] | Some (QArr ss) \<Rightarrow> True)"

text \<open>
  \<^verbatim>\<open>parseInt(string)\<close> with no radix: leading white space (of the code units below 256: tab,
  line feed, vertical tab, form feed, carriage return, space, no-break space) is skipped, then
  an optional sign,
  then \<^verbatim>\<open>0x\<close> or \<^verbatim>\<open>0X\<close> selects radix 16, then the longest prefix of digits of the radix is
  read; without a digit the result is \<^verbatim>\<open>NaN\<close>. The digits give the number exactly when it is
  within \<open>\<plusminus>2^53\<close>; beyond, the engine rounds, or overflows to an infinity.
\<close>

definition is_space :: "char \<Rightarrow> bool" where
  "is_space c = (c \<in> set [CHR 0x09, CHR 0x0A, CHR 0x0B, CHR 0x0C, CHR 0x0D, CHR 0x20, CHR 0xA0])"

definition digit_val :: "char \<Rightarrow> nat option" where
  "digit_val c =
     (let n = (of_char c :: nat) in
      if 48 \<le> n \<and> n \<le> 57 then Some (n - 48)
      else if 97 \<le> n \<and> n \<le> 122 then Some (n - 87)
      else if 65 \<le> n \<and> n \<le> 90 then Some (n - 55)
      else None)"

definition radix_digit :: "nat \<Rightarrow> char \<Rightarrow> bool" where
  "radix_digit R c = (case digit_val c of None \<Rightarrow> False | Some d \<Rightarrow> d < R)"

definition radix_value :: "nat \<Rightarrow> string \<Rightarrow> nat" where
  "radix_value R zs = foldl (\<lambda>acc c. acc * R + (case digit_val c of None \<Rightarrow> 0 | Some d \<Rightarrow> d)) 0 zs"

definition parseInt :: "'d builtins \<Rightarrow> string \<Rightarrow> jsnum" where
  "parseInt B input =
     (let S = dropWhile is_space input;
          neg = (take 1 S = ''-'');
          S1 = (if take 1 S = ''-'' \<or> take 1 S = ''+'' then drop 1 S else S);
          hex = (take 2 S1 = ''0x'' \<or> take 2 S1 = ''0X'');
          R = (if hex then 16 else 10);
          S2 = (if hex then drop 2 S1 else S1);
          Z = takeWhile (radix_digit R) S2;
          v = (if neg then - 1 else 1) * int (radix_value R Z)
      in if Z = [] then NaN
         else if exact_int v then Fin v
         else parseInt_beyond B input)"

text \<open>\<^verbatim>\<open>x || d\<close> on a number: \<^verbatim>\<open>NaN\<close> and \<^verbatim>\<open>0\<close> are falsy.\<close>

definition or_default :: "jsnum \<Rightarrow> jsnum \<Rightarrow> jsnum" where
  "or_default x d = (if x = NaN \<or> x = Fin 0 then d else x)"

text \<open>
  \<^verbatim>\<open>Array.prototype.slice(start, end)\<close>: each bound is made an integer (\<^verbatim>\<open>NaN\<close> is 0), a
  negative bound counts from the end of the array, and both bounds are clamped to it.
\<close>

definition clamp_bound :: "int \<Rightarrow> jsnum \<Rightarrow> int" where
  "clamp_bound len x =
     (case x of
        NaN \<Rightarrow> 0
      | NegInf \<Rightarrow> 0
      | PosInf \<Rightarrow> len
      | Fin n \<Rightarrow> (if n < 0 then max (len + n) 0 else min n len))"

definition js_slice :: "'a list \<Rightarrow> jsnum \<Rightarrow> jsnum \<Rightarrow> 'a list" where
  "js_slice xs start fin =
     (let len = int (length xs);
          k = clamp_bound len start;
          final = clamp_bound len fin
      in take (nat (final - k)) (drop (nat k) xs))"

text \<open>
  The operator \<^verbatim>\<open><\<close>: both operands go through \<^verbatim>\<open>ToPrimitive\<close>; two strings are compared by
  code units, anything else as numbers, and a comparison with \<^verbatim>\<open>NaN\<close> (so with
  \<^verbatim>\<open>undefined\<close>) is false.
\<close>

definition ToPrimitive :: "'d builtins \<Rightarrow> json \<Rightarrow> json" where
  "ToPrimitive B v =
     (case v of
        JArr xs \<Rightarrow> JStr (ToString B (JArr xs))
      | JObj m \<Rightarrow> JStr (ToString B (JObj m))
      | JFun f \<Rightarrow> JStr (ToString B (JFun f))
      | _ \<Rightarrow> v)"

fun str_less :: "string \<Rightarrow> string \<Rightarrow> bool" where
  "str_less [] [] = False"
| "str_less [] (y # ys) = True"
| "str_less (x # xs) [] = False"
| "str_less (x # xs) (y # ys) =
     (if x = y then str_less xs ys else (of_char x :: nat) < of_char y)"

fun num_less :: "jsnum \<Rightarrow> jsnum \<Rightarrow> bool" where
  "num_less NaN y = False"
| "num_less x NaN = False"
| "num_less (Fin m) (Fin n) = (m < n)"
| "num_less (Fin m) PosInf = True"
| "num_less NegInf (Fin n) = True"
| "num_less NegInf PosInf = True"
| "num_less x y = False"

definition ToNumber_prop :: "'d builtins \<Rightarrow> json option \<Rightarrow> jsnum" where
  "ToNumber_prop B v = (case v of None \<Rightarrow> NaN | Some x \<Rightarrow> ToNumber B x)"

definition js_less :: "'d builtins \<Rightarrow> json option \<Rightarrow> json option \<Rightarrow> bool" where
  "js_less B a b =
     (case (map_option (ToPrimitive B) a, map_option (ToPrimitive B) b) of
        (Some (JStr s), Some (JStr t)) \<Rightarrow> str_less s t
      | (pa, pb) \<Rightarrow> num_less (ToNumber_prop B pa) (ToNumber_prop B pb))"

text \<open>The comparator given to \<^verbatim>\<open>paged.sort\<close>; \<open>order\<close> is \<open>-1\<close> for \<^verbatim>\<open>desc\<close> and \<open>1\<close> otherwise.\<close>

definition compare_by :: "'d builtins \<Rightarrow> string \<Rightarrow> int \<Rightarrow> item \<Rightarrow> item \<Rightarrow> int" where
  "compare_by B sortKey order a b =
     (if js_less B (get_prop a sortKey) (get_prop b sortKey) then - 1 * order
      else if js_less B (get_prop b sortKey) (get_prop a sortKey) then 1 * order
      else 0)"

text \<open>
  \<^verbatim>\<open>Array.prototype.sort(comparefn)\<close>. A comparator is consistent on the elements of an array
  when it is reflexive, antisymmetric in sign and transitive on them. The sort is stable, so
  for a consistent comparator its result is determined: it is the rearrangement that is in
  the order of the comparator and keeps elements that compare equal in their order, which
  this insertion sort computes. For another comparator the order is implementation-defined.
\<close>

definition consistent :: "('a \<Rightarrow> 'a \<Rightarrow> int) \<Rightarrow> 'a list \<Rightarrow> bool" where
  "consistent cmp xs =
     list_all (\<lambda>a. cmp a a = 0 \<and>
       list_all (\<lambda>b. (cmp a b < 0) = (0 < cmp b a) \<and>
         list_all (\<lambda>c. cmp a b \<le> 0 \<and> cmp b c \<le> 0 \<longrightarrow> cmp a c \<le> 0) xs) xs) xs"

fun insert_sorted :: "('a \<Rightarrow> 'a \<Rightarrow> int) \<Rightarrow> 'a \<Rightarrow> 'a list \<Rightarrow> 'a list" where
  "insert_sorted cmp x [] = [x]"
| "insert_sorted cmp x (y # ys) =
     (if cmp x y \<le> 0 then x # y # ys else y # insert_sorted cmp x ys)"

definition stable_sort :: "('a \<Rightarrow> 'a \<Rightarrow> int) \<Rightarrow> 'a list \<Rightarrow> 'a list" where
  "stable_sort cmp xs = foldr (insert_sorted cmp) xs []"

definition sort_js :: "'d builtins \<Rightarrow> (item \<Rightarrow> item \<Rightarrow> int) \<Rightarrow> item list \<Rightarrow> item list" where
  "sort_js B cmp xs =
     (if consistent cmp xs then stable_sort cmp xs else sort_inconsistent B cmp xs)"

text \<open>
  The filtering loop over \<^verbatim>\<open>Object.entries(url.query)\<close>: every key other than \<^verbatim>\<open>_page\<close>,
  \<^verbatim>\<open>_limit\<close>, \<^verbatim>\<open>_sort\<close> and \<^verbatim>\<open>_order\<close> keeps the records with
  \<^verbatim>\<open>String(item[key]) === String(value)\<close>.
\<close>

definition filter_items :: "'d builtins \<Rightarrow> query \<Rightarrow> item list \<Rightarrow> item list" where
  "filter_items B q items =
     foldl (\<lambda>its (key, v).
              if key \<noteq> ''_page'' \<and> key \<noteq> ''_limit'' \<and> key \<noteq> ''_sort'' \<and> key \<noteq> ''_order''
              then filter (\<lambda>i. String_prop B (get_prop i key) = qString (Some v)) its
              else its)
       items q"

text \<open>The three stages after filtering, as the handler computes them.\<close>

definition page_of :: "'d builtins \<Rightarrow> query \<Rightarrow> jsnum" where
  "page_of B q = or_default (parseInt B (qString (map_of q ''_page''))) (Fin 1)"

definition limit_of :: "'d builtins \<Rightarrow> query \<Rightarrow> item list \<Rightarrow> jsnum" where
  "limit_of B q items =
     or_default (parseInt B (qString (map_of q ''_limit''))) (Fin (int (length items)))"

definition paginate :: "'d builtins \<Rightarrow> query \<Rightarrow> item list \<Rightarrow> item list" where
  "paginate B q items =
     (let page = page_of B q;
          limit = limit_of B q items;
          start = js_arith B Mul (js_arith B Sub page (Fin 1)) limit
      in js_slice items start (js_arith B Add start limit))"

definition sort_paged :: "'d builtins \<Rightarrow> query \<Rightarrow> item list \<Rightarrow> item list" where
  "sort_paged B q paged =
     (if qtruthy (map_of q ''_sort'')
      then
        let sortKey = qString (map_of q ''_sort'');
            order = (if map_of q ''_order'' = Some (QStr ''desc'') then - 1 else 1)
        in sort_js B (compare_by B sortKey order) paged
      else paged)"

text \<open>\<^verbatim>\<open>GET /resource\<close>: list all.\<close>

definition list_handler ::
  "DataStore builtins \<Rightarrow> string \<Rightarrow> query \<Rightarrow> response \<Rightarrow> DataStore server_state
     \<Rightarrow> js_error + response" where
  "list_handler B resource q res s =
     (case get_items (data s) resource of
        Inl e \<Rightarrow> Inl e
      | Inr all_items \<Rightarrow>
          let items = filter_items B q all_items;
              paged = paginate B q items;
              sorted = sort_paged B q paged
          in Inr (sendJson (setHeader ''X-Total-Count'' (string_of_int (int (length items))) res)
                    200 (JArr (map JObj sorted))))"

section \<open>The route table and the request pipeline\<close>

text \<open>
  The two path patterns of a resource, \<^verbatim>\<open>new RegExp(`^/${resource}$`)\<close> and
  \<^verbatim>\<open>new RegExp(`^/${resource}/([^/]+)$`)\<close>. \<open>match_path\<close> is \<^verbatim>\<open>pathname.match(route.path)\<close>:
  \<open>None\<close> when there is no match, otherwise the group \<^verbatim>\<open>match[1]\<close>, which the collection
  pattern does not have. A resource name without regular-expression metacharacters matches
  itself; for another name the match is the engine's.
\<close>

datatype route_path = Collection string | Item string

definition regex_special :: "char \<Rightarrow> bool" where
  "regex_special c =
     (c \<in> set [CHR 0x5C, CHR ''^'', CHR ''$'', CHR ''.'', CHR ''|'', CHR ''?'', CHR ''*'',
               CHR ''+'', CHR ''('', CHR '')'', CHR ''['', CHR '']'', CHR ''{'', CHR ''}''])"

fun pattern_source :: "route_path \<Rightarrow> string" where
  "pattern_source (Collection r) = ''^/'' @ r @ ''$''"
| "pattern_source (Item r) = ''^/'' @ r @ ''/([^/]+)$''"

fun resource_of :: "route_path \<Rightarrow> string" where
  "resource_of (Collection r) = r"
| "resource_of (Item r) = r"

fun literal_match :: "route_path \<Rightarrow> string \<Rightarrow> string option option" where
  "literal_match (Collection r) p = (if p = CHR ''/'' # r then Some None else None)"
| "literal_match (Item r) p =
     (let pre = CHR ''/'' # r @ ''/'';
          seg = drop (length pre) p
      in if take (length pre) p = pre \<and> seg \<noteq> [] \<and> CHR ''/'' \<notin> set seg
         then Some (Some seg) else None)"

definition match_path :: "'d builtins \<Rightarrow> route_path \<Rightarrow> string \<Rightarrow> string option option" where
  "match_path B pat p =
     (if list_ex regex_special (resource_of pat) then RegExp_match B (pattern_source pat) p
      else literal_match pat p)"

text \<open>
  The six handlers pushed for each resource, named by what they close over, and the
  \<^verbatim>\<open>RouteHandler\<close> entries (\<open>route_method\<close> is the field \<^verbatim>\<open>method\<close>).
\<close>

datatype handler =
    ListAll string
  | GetOne string
  | Create string
  | Replace string
  | Update string
  | Delete string

record RouteHandler =
  route_method :: string
  path :: route_path
  handler :: handler

definition routes_for :: "string \<Rightarrow> RouteHandler list" where
  "routes_for resource =
     [\<lparr>route_method = ''GET'', path = Collection resource, handler = ListAll resource\<rparr>,
      \<lparr>route_method = ''GET'', path = Item resource, handler = GetOne resource\<rparr>,
      \<lparr>route_method = ''POST'', path = Collection resource, handler = Create resource\<rparr>,
      \<lparr>route_method = ''PUT'', path = Item resource, handler = Replace resource\<rparr>,
      \<lparr>route_method = ''PATCH'', path = Item resource, handler = Update resource\<rparr>,
      \<lparr>route_method = ''DELETE'', path = Item resource, handler = Delete resource\<rparr>]"

text \<open>
  \<^verbatim>\<open>for (const resource of Object.keys(data))\<close>, once, at start-up: the route table of a server
  that has started. (A resource name that is not a valid regular expression makes
  \<^verbatim>\<open>new RegExp\<close> throw there, and no server is created.)
\<close>

definition generate_routes :: "DataStore \<Rightarrow> RouteHandler list" where
  "generate_routes d = concat (map routes_for (map fst d))"

text \<open>An incoming request: method, parsed URL, and the body text once it has been read.\<close>

record request =
  reqMethod :: string
  pathname :: string
  reqQuery :: query
  bodyText :: string

text \<open>Invoking the handler of a route with \<^verbatim>\<open>(req, res, params, body)\<close>.\<close>

definition run_handler ::
  "DataStore builtins \<Rightarrow> MockApiOptions \<Rightarrow> handler \<Rightarrow> request \<Rightarrow> string option \<Rightarrow> json option
     \<Rightarrow> response \<Rightarrow> DataStore server_state \<Rightarrow> js_error + response \<times> DataStore server_state" where
  "run_handler B opts h req pid body res s =
     (case h of
        ListAll r \<Rightarrow> map_sum id (\<lambda>sent. (sent, s)) (list_handler B r (reqQuery req) res s)
      | GetOne r \<Rightarrow> map_sum id (\<lambda>sent. (sent, s)) (get_one_handler B r pid res s)
      | Create r \<Rightarrow> post_handler B opts r body res s
      | Replace r \<Rightarrow> put_handler B opts r pid body res s
      | Update r \<Rightarrow> patch_handler B opts r pid body res s
      | Delete r \<Rightarrow> delete_handler B opts r pid res s)"

text \<open>
  The loop over \<^verbatim>\<open>routes\<close>: the first route of the method whose pattern matches, with
  \<^verbatim>\<open>if (match[1]) params.id = match[1]\<close>.
\<close>

definition params_id :: "string option \<Rightarrow> string option" where
  "params_id g = (case g of Some seg \<Rightarrow> (if seg \<noteq> [] then Some seg else None) | None \<Rightarrow> None)"

fun find_route ::
  "'d builtins \<Rightarrow> RouteHandler list \<Rightarrow> string \<Rightarrow> string
     \<Rightarrow> (RouteHandler \<times> string option) option" where
  "find_route B [] m p = None"
| "find_route B (rt # rts) m p =
     (if m \<noteq> route_method rt then find_route B rts m p
      else (case match_path B (path rt) p of
              None \<Rightarrow> find_route B rts m p
            | Some g \<Rightarrow> Some (rt, params_id g)))"

text \<open>\<^verbatim>\<open>body ? JSON.parse(body) : {}\<close> inside \<^verbatim>\<open>try\<close>/\<^verbatim>\<open>catch\<close>.\<close>

definition parse_body :: "'d builtins \<Rightarrow> string \<Rightarrow> json option" where
  "parse_body B text = (if text \<noteq> [] then JSON_parse B text else Some (JObj fmempty))"

definition cors_headers :: "response \<Rightarrow> response" where
  "cors_headers res =
     setHeader ''Access-Control-Expose-Headers'' ''X-Total-Count''
       (setHeader ''Access-Control-Allow-Headers'' ''Content-Type, Authorization''
         (setHeader ''Access-Control-Allow-Methods'' ''GET, POST, PUT, PATCH, DELETE, OPTIONS''
           (setHeader ''Access-Control-Allow-Origin'' ''*'' res)))"

definition fresh_response :: response where
  "fresh_response = \<lparr>statusCode = 200, headers = [], payload = None\<rparr>"

text \<open>The response as \<^verbatim>\<open>handleRequest\<close> has it after its first step, the \<^verbatim>\<open>if (cors)\<close> block.\<close>

definition start_response :: "MockApiOptions \<Rightarrow> response" where
  "start_response opts = (if cors opts then cors_headers fresh_response else fresh_response)"

text \<open>\<^verbatim>\<open>url.pathname || '/'\<close>.\<close>

definition request_path :: "request \<Rightarrow> string" where
  "request_path req = (if pathname req = [] then ''/'' else pathname req)"

text \<open>
  \<^verbatim>\<open>handleRequest\<close>. Reading the body and the configured delay only postpone the call of the
  handler; the handler then runs to completion on the state of that moment, which is the
  state given here.
\<close>

definition handleRequest ::
  "DataStore builtins \<Rightarrow> MockApiOptions \<Rightarrow> RouteHandler list \<Rightarrow> request
     \<Rightarrow> DataStore server_state \<Rightarrow> js_error + response \<times> DataStore server_state" where
  "handleRequest B opts routes req s =
     (let res = start_response opts in
      if reqMethod req = ''OPTIONS'' then Inr (res\<lparr>statusCode := 204\<rparr>, s)
      else
        (case find_route B routes (reqMethod req) (request_path req) of
           None \<Rightarrow> Inr (sendJson res 404 not_found, s)
         | Some (rt, pid) \<Rightarrow>
             if reqMethod req \<in> set [''POST'', ''PUT'', ''PATCH'']
             then
               (case parse_body B (bodyText req) of
                  None \<Rightarrow> Inr (sendJson res 400 (error_body ''Invalid JSON''), s)
                | Some parsed \<Rightarrow> run_handler B opts (handler rt) req pid (Some parsed) res s)
             else run_handler B opts (handler rt) req pid None res s))"

section \<open>Notions used to state the properties\<close>

text \<open>The \<^verbatim>\<open>id\<close> field of a request body, when the body is an object that has one.\<close>

definition body_id :: "json \<Rightarrow> json option" where
  "body_id body = (case body of JObj m \<Rightarrow> fmlookup m ''id'' | _ \<Rightarrow> None)"

subsection \<open>The computed id, in the words of the specification\<close>







subsection \<open>Pagination, in the words of the specification\<close>





subsection \<open>Filtering and sorting\<close>







subsection \<open>Reloads over time\<close>

text \<open>
  One change of the backing file followed by the call of the watch callback, and a sequence
  of such changes. In the words of the specification, the store is then the most recently
  parsed valid content of the file: the value of the last of the file states that is a
  content that parses, or the store from before when there is none.
\<close>

definition after_change :: "'d builtins \<Rightarrow> 'd server_state \<Rightarrow> file_state \<Rightarrow> 'd server_state" where
  "after_change B s f = fst (watch_callback B (s\<lparr>dataFile := f\<rparr>))"

definition parsed_content :: "'d builtins \<Rightarrow> file_state \<Rightarrow> 'd option" where
  "parsed_content B f = (case f of Content c \<Rightarrow> JSON_parse_data B c | _ \<Rightarrow> None)"

fun valid_contents :: "'d builtins \<Rightarrow> file_state list \<Rightarrow> 'd list" where
  "valid_contents B [] = []"
| "valid_contents B (f # fs) =
     (case parsed_content B f of
        None \<Rightarrow> valid_contents B fs
      | Some d \<Rightarrow> d # valid_contents B fs)"

definition most_recent_valid :: "'d builtins \<Rightarrow> 'd \<Rightarrow> file_state list \<Rightarrow> 'd" where
  "most_recent_valid B d fs =
     (if valid_contents B fs = [] then d else last (valid_contents B fs))"

subsection \<open>A configuration for the examples\<close>

text \<open>
  Stand-ins for what is taken from the engine and the file system. The examples stay where
  little of it is used: a string of decimal digits converts to its value, the empty string to
  0 and \<^verbatim>\<open>abc\<close> to \<^verbatim>\<open>NaN\<close>; the texts \<^verbatim>\<open>{}\<close>, \<^verbatim>\<open>[]\<close> and \<^verbatim>\<open>null\<close> parse and the text \<^verbatim>\<open>{\<close> does not;
  no write throws. The other stand-ins are not reached by the examples. The general theorems
  hold for every choice of these parameters.
\<close>

definition example_StringToNumber :: "string \<Rightarrow> jsnum" where
  "example_StringToNumber s =
     (if s = [] then Fin 0
      else if list_all (radix_digit 10) s \<and> exact_int (int (radix_value 10 s))
      then Fin (int (radix_value 10 s))
      else NaN)"

definition example_Function_toString :: "string \<Rightarrow> string" where
  "example_Function_toString f = ''function '' @ f @ ''() { [native code] }''"

definition example_parseInt_beyond :: "string \<Rightarrow> jsnum" where
  "example_parseInt_beyond s = PosInf"

definition example_double_arith :: "arith \<Rightarrow> jsnum \<Rightarrow> jsnum \<Rightarrow> jsnum" where
  "example_double_arith op a b = NaN"

definition example_sort_inconsistent :: "(item \<Rightarrow> item \<Rightarrow> int) \<Rightarrow> item list \<Rightarrow> item list" where
  "example_sort_inconsistent cmp xs = xs"

definition example_RegExp_match :: "string \<Rightarrow> string \<Rightarrow> string option option" where
  "example_RegExp_match source subject = None"

definition example_JSON_parse :: "string \<Rightarrow> json option" where
  "example_JSON_parse s =
     (if s = ''{}'' then Some (JObj fmempty)
      else if s = ''[]'' then Some (JArr [])
      else if s = ''null'' then Some JNull
      else None)"

definition example_JSON_parse_data :: "string \<Rightarrow> DataStore option" where
  "example_JSON_parse_data s = (if s = ''{}'' then Some [] else None)"

definition example_JSON_stringify :: "DataStore \<Rightarrow> string" where
  "example_JSON_stringify d = (if d = [] then ''{}'' else ''{ ... }'')"

definition example_writeFileSync_throws :: "file_state \<Rightarrow> string \<Rightarrow> bool" where
  "example_writeFileSync_throws f t = False"

definition example_builtins :: "DataStore builtins" where
  "example_builtins =
     \<lparr>StringToNumber = example_StringToNumber,
      Number_toString = string_of_int,
      Function_toString = example_Function_toString,
      parseInt_beyond = example_parseInt_beyond,
      double_arith = example_double_arith,
      sort_inconsistent = example_sort_inconsistent,
      RegExp_match = example_RegExp_match,
      spread_limit = 65535,
      JSON_parse = example_JSON_parse,
      JSON_parse_data = example_JSON_parse_data,
      JSON_stringify = example_JSON_stringify,
      writeFileSync_throws = example_writeFileSync_throws\<rparr>"

text \<open>The same with a store of any shape, for the reload.\<close>

definition example_stringify_any :: "json \<Rightarrow> string" where
  "example_stringify_any d = ''...''"

definition untyped_builtins :: "json builtins" where
  "untyped_builtins =
     \<lparr>StringToNumber = example_StringToNumber,
      Number_toString = string_of_int,
      Function_toString = example_Function_toString,
      parseInt_beyond = example_parseInt_beyond,
      double_arith = example_double_arith,
      sort_inconsistent = example_sort_inconsistent,
      RegExp_match = example_RegExp_match,
      spread_limit = 65535,
      JSON_parse = example_JSON_parse,
      JSON_parse_data = example_JSON_parse,
      JSON_stringify = example_stringify_any,
      writeFileSync_throws = example_writeFileSync_throws\<rparr>"

definition default_options :: MockApiOptions where
  "default_options = \<lparr>port = 3001, delay = 0, cors = True, watch = False, readonly = False\<rparr>"

definition no_cors_options :: MockApiOptions where
  "no_cors_options = default_options\<lparr>cors := False\<rparr>"

definition readonly_options :: MockApiOptions where
  "readonly_options = default_options\<lparr>readonly := True\<rparr>"

definition alice :: item where
  "alice = fmap_of_list [(''id'', JNum (Fin 1)), (''name'', JStr ''Alice''), (''role'', JStr ''admin'')]"

definition bob :: item where
  "bob = fmap_of_list [(''id'', JNum (Fin 2)), (''name'', JStr ''Bob''), (''role'', JStr ''user'')]"





definition carol :: json where
  "carol = JObj (fmap_of_list [(''name'', JStr ''Carol'')])"

definition users_state :: "item list \<Rightarrow> DataStore server_state" where
  "users_state xs = \<lparr>data = [(''users'', xs)], dataFile = Content ''{ ... }''\<rparr>"

definition example_state :: "DataStore server_state" where
  "example_state = users_state [alice, bob]"

definition users_request :: "string \<Rightarrow> string \<Rightarrow> string \<Rightarrow> request" where
  "users_request m p b = \<lparr>reqMethod = m, pathname = p, reqQuery = [], bodyText = b\<rparr>"



definition delete_request :: request where
  "delete_request = users_request ''DELETE'' ''/users/1'' []"

definition empty_post :: request where
  "empty_post = users_request ''POST'' ''/users'' []"

definition malformed_post :: request where
  "malformed_post = users_request ''POST'' ''/users'' ''{''"

definition options_request :: request where
  "options_request = users_request ''OPTIONS'' ''/anything'' []"





section \<open>Auxiliary facts\<close>

lemma digits_chars: "set (digits n) \<subseteq> set ''0123456789''"
proof (induction n rule: digits.induct)
  case (1 n)
  show ?case
  proof (cases "n < 10")
    case True
    then have "n \<in> {0,1,2,3,4,5,6,7,8,9}" by auto
    then show ?thesis by (subst digits.simps) auto
  next
    case False
    have "n mod 10 \<in> {0,1,2,3,4,5,6,7,8,9}" by (simp; presburger)
    then have "''0123456789'' ! (n mod 10) \<in> set ''0123456789''" by auto
    with 1 False show ?thesis by (subst digits.simps) auto
  qed
qed

lemma id_not_index_key: "''id'' \<notin> set (index_keys n)"
proof
  assume "''id'' \<in> set (index_keys n)"
  then obtain k where k: "digits k = ''id''" by (auto simp: index_keys_def)
  have "CHR ''i'' \<in> set (digits k)" by (simp add: k)
  with digits_chars [of k] have "CHR ''i'' \<in> set ''0123456789''" by blast
  then show False by simp
qed

lemma fmlookup_zip_None: "k \<notin> set ks \<Longrightarrow> fmlookup (fmap_of_list (zip ks vs)) k = None"
proof -
  assume "k \<notin> set ks"
  then have "k \<notin> fst ` set (zip ks vs)" by (auto dest: set_zip_leftD)
  then show ?thesis by (simp add: fmlookup_of_list map_of_eq_None_iff)
qed

lemma spread_id: "fmlookup (spread (Some body)) ''id'' = body_id body"
  by (cases body) (simp_all add: spread_def body_id_def fmlookup_zip_None id_not_index_key)

lemma get_prop_id: "get_prop i ''id'' = fmlookup i ''id''"
  by (simp add: get_prop_def Object_prototype_def split: option.splits)

lemma sendJson_sel: "statusCode (sendJson res st d) = st" "payload (sendJson res st d) = Some d"
  by (simp_all add: sendJson_def setHeader_def)

lemma merge_fields:
  "fmlookup (base ++\<^sub>f spread (Some body)) k
     = (case fmlookup (spread (Some body)) k of Some w \<Rightarrow> Some w | None \<Rightarrow> fmlookup base k)"
  by (cases "fmlookup (spread (Some body)) k") (auto simp: fmlookup_dom_iff)

lemma findIndex_Some:
  "findIndex P xs = Some i \<Longrightarrow> i < length xs \<and> P (xs ! i) \<and> (\<forall>j<i. \<not> P (xs ! j))"
proof (induction xs arbitrary: i)
  case Nil
  then show ?case by simp
next
  case (Cons x xs)
  show ?case
  proof (cases "P x")
    case True
    with Cons.prems show ?thesis by simp
  next
    case False
    with Cons.prems obtain k where k: "findIndex P xs = Some k" "i = Suc k"
      by (auto split: option.splits)
    from Cons.IH [OF k(1)] False k(2) show ?thesis
      by (auto simp: nth_Cons split: nat.splits)
  qed
qed

lemma saveData_writable:
  "\<not> readonly opts \<Longrightarrow>
   saveData B opts s =
     (if writeFileSync_throws B (dataFile s) (JSON_stringify B (data s)) then Inl WriteError
      else Inr (s\<lparr>dataFile := Content (JSON_stringify B (data s))\<rparr>))"
  by (simp add: saveData_def)

lemma post_handler_rw:
  assumes "\<not> readonly opts" and "get_items (data s) R = Inr items" and "newId B items = Inr nid"
  shows "post_handler B opts R body res s =
     (if writeFileSync_throws B (dataFile s)
           (JSON_stringify B (AList.update R
              (items @ [fmupd ''id'' (JNum nid) fmempty ++\<^sub>f spread body]) (data s)))
      then Inl WriteError
      else Inr (sendJson res 201 (JObj (fmupd ''id'' (JNum nid) fmempty ++\<^sub>f spread body)),
             \<lparr>data = AList.update R
                 (items @ [fmupd ''id'' (JNum nid) fmempty ++\<^sub>f spread body]) (data s),
              dataFile = Content (JSON_stringify B (AList.update R
                 (items @ [fmupd ''id'' (JNum nid) fmempty ++\<^sub>f spread body]) (data s)))\<rparr>))"
  using assms by (simp add: post_handler_def Let_def saveData_writable set_items_def)

lemma put_handler_rw:
  assumes "\<not> readonly opts" and "get_items (data s) R = Inr items"
    and "findIndex (id_matches B pid) items = Some idx"
  shows "put_handler B opts R pid body res s =
     (if writeFileSync_throws B (dataFile s)
           (JSON_stringify B (AList.update R
              (items[idx := id_only (items ! idx) ++\<^sub>f spread body]) (data s)))
      then Inl WriteError
      else Inr (sendJson res 200 (JObj (id_only (items ! idx) ++\<^sub>f spread body)),
             \<lparr>data = AList.update R
                 (items[idx := id_only (items ! idx) ++\<^sub>f spread body]) (data s),
              dataFile = Content (JSON_stringify B (AList.update R
                 (items[idx := id_only (items ! idx) ++\<^sub>f spread body]) (data s)))\<rparr>))"
  using assms by (simp add: put_handler_def Let_def saveData_writable set_items_def)


lemma get_items_update: "get_items (AList.update R xs d) R = Inr xs"
  by (simp add: get_items_def update_conv')

lemma get_items_update_other: "R' \<noteq> R \<Longrightarrow> get_items (AList.update R xs d) R' = get_items d R'"
  by (simp add: get_items_def update_conv')

lemma find_route_Some:
  "find_route B rts m p = Some (rt, g)
     \<Longrightarrow> rt \<in> set rts \<and> route_method rt = m
         \<and> (\<exists>mg. match_path B (path rt) p = Some mg \<and> g = params_id mg)"
  by (induction rts) (auto split: if_splits option.splits)

lemma generated_route:
  assumes "rt \<in> set (generate_routes d)"
  shows "\<exists>r. rt \<in> set (routes_for r)"
  using assms by (auto simp: generate_routes_def)

lemma routes_for_handler:
  assumes "rt \<in> set (routes_for r)"
  shows "(route_method rt = ''POST'' \<longrightarrow> handler rt = Create r)
       \<and> (route_method rt = ''PUT'' \<longrightarrow> handler rt = Replace r)
       \<and> (route_method rt = ''PATCH'' \<longrightarrow> handler rt = Update r)
       \<and> (route_method rt = ''DELETE'' \<longrightarrow> handler rt = Delete r)"
  using assms by (auto simp: routes_for_def)

lemma run_handler_readonly:
  assumes "readonly opts" and "h = Create r \<or> h = Replace r \<or> h = Update r \<or> h = Delete r"
  shows "run_handler B opts h req pid body res s = Inr (sendJson res 403 readonly_error, s)"
  using assms
  by (auto simp: run_handler_def post_handler_def put_handler_def patch_handler_def
      delete_handler_def)

lemma handleRequest_routed:
  assumes "reqMethod req \<noteq> ''OPTIONS''"
    and "find_route B routes (reqMethod req) (request_path req) = Some (rt, pid)"
  shows "handleRequest B opts routes req s =
     (if reqMethod req \<in> set [''POST'', ''PUT'', ''PATCH'']
      then
        (case parse_body B (bodyText req) of
           None \<Rightarrow> Inr (sendJson (start_response opts) 400 (error_body ''Invalid JSON''), s)
         | Some parsed \<Rightarrow>
             run_handler B opts (handler rt) req pid (Some parsed) (start_response opts) s)
      else run_handler B opts (handler rt) req pid None (start_response opts) s)"
  using assms by (simp add: handleRequest_def Let_def)

section \<open>Facts about the list handler\<close>















section \<open>Facts about sorting\<close>




















section \<open>Create\<close>

text \<open>
  C1, as amended. On a server that is not read-only, a create on a collection for which the
  id is computed (the call of \<^verbatim>\<open>Math.max\<close> does not throw) either throws at the write of the
  data file, before anything is sent, or responds 201 with the record
  \<^verbatim>\<open>{ id: newId, ...body }\<close>, appended to the collection of the resource and written to the
  file with the rest of the store. The fields of that record other than \<^verbatim>\<open>id\<close> are those the
  spread takes from the body, which for an object are its own fields. Its \<^verbatim>\<open>id\<close> is the computed
  id when the body has no \<^verbatim>\<open>id\<close> field of its own (in particular when the body is not an
  object); when the body has an \<^verbatim>\<open>id\<close> field, the value of the body wins over the computed id.
\<close>

theorem create_id_from_body_or_computed:
  assumes "\<not> readonly opts"
    and "get_items (data s) R = Inr items"
    and "newId B items = Inr nid"
    and "newItem = fmupd ''id'' (JNum nid) fmempty ++\<^sub>f spread (Some body)"
    and "stored = AList.update R (items @ [newItem]) (data s)"
  shows "post_handler B opts R (Some body) res s =
           (if writeFileSync_throws B (dataFile s) (JSON_stringify B stored) then Inl WriteError
            else Inr (sendJson res 201 (JObj newItem),
                   \<lparr>data = stored, dataFile = Content (JSON_stringify B stored)\<rparr>))
       \<and> statusCode (sendJson res 201 (JObj newItem)) = 201
       \<and> payload (sendJson res 201 (JObj newItem)) = Some (JObj newItem)
       \<and> get_items stored R = Inr (items @ [newItem])
       \<and> (\<forall>R'. R' \<noteq> R \<longrightarrow> get_items stored R' = get_items (data s) R')
       \<and> fmlookup newItem ''id'' = Some (case body_id body of None \<Rightarrow> JNum nid | Some v \<Rightarrow> v)
       \<and> (\<forall>k. k \<noteq> ''id'' \<longrightarrow> fmlookup newItem k = fmlookup (spread (Some body)) k)
       \<and> (\<forall>m. body = JObj m \<longrightarrow>
            (\<forall>k. fmlookup newItem k
                   = (if k = ''id'' then Some (case fmlookup m ''id'' of None \<Rightarrow> JNum nid | Some v \<Rightarrow> v)
                      else fmlookup m k)))"
proof -
  have run: "post_handler B opts R (Some body) res s =
           (if writeFileSync_throws B (dataFile s) (JSON_stringify B stored) then Inl WriteError
            else Inr (sendJson res 201 (JObj newItem),
                   \<lparr>data = stored, dataFile = Content (JSON_stringify B stored)\<rparr>))"
    unfolding assms(4,5) by (rule post_handler_rw [OF assms(1-3)])
  have ident: "fmlookup newItem ''id'' = Some (case body_id body of None \<Rightarrow> JNum nid | Some v \<Rightarrow> v)"
    unfolding assms(4) merge_fields spread_id by (simp split: option.splits)
  have rest: "fmlookup newItem k = fmlookup (spread (Some body)) k" if "k \<noteq> ''id''" for k
    unfolding assms(4) merge_fields using that by (simp split: option.splits)
  have obj: "fmlookup newItem k
       = (if k = ''id'' then Some (case fmlookup m ''id'' of None \<Rightarrow> JNum nid | Some v \<Rightarrow> v)
          else fmlookup m k)" if "body = JObj m" for m k
  proof (cases "k = ''id''")
    case True
    with ident that show ?thesis by (simp add: body_id_def)
  next
    case False
    with rest [OF False] that show ?thesis by (simp add: spread_def)
  qed
  have mine: "get_items stored R = Inr (items @ [newItem])"
    unfolding assms(5) by (rule get_items_update)
  have others: "get_items stored R' = get_items (data s) R'" if "R' \<noteq> R" for R'
    unfolding assms(5) using that by (rule get_items_update_other)
  show ?thesis
    apply (rule conjI [OF run])
    apply (rule conjI [OF sendJson_sel(1)])
    apply (rule conjI [OF sendJson_sel(2)])
    apply (rule conjI [OF mine])
    apply (rule conjI)
     apply (simp add: others)
    apply (rule conjI [OF ident])
    apply (rule conjI)
     apply (simp add: rest)
    apply (simp add: obj)
    done
qed

theorem create_id_from_body_or_computed_witness:
  "\<not> readonly default_options
   \<and> get_items (data example_state) ''users'' = Inr [alice, bob]
   \<and> newId example_builtins [alice, bob] = Inr (Fin 3)
   \<and> post_handler example_builtins default_options ''users'' (Some carol) fresh_response
        example_state
       = Inr (sendJson fresh_response 201
                (JObj (fmupd ''id'' (JNum (Fin 3)) fmempty ++\<^sub>f spread (Some carol))),
              \<lparr>data = [(''users'',
                  [alice, bob, fmupd ''id'' (JNum (Fin 3)) fmempty ++\<^sub>f spread (Some carol)])],
               dataFile = Content ''{ ... }''\<rparr>)
   \<and> fmlookup (fmupd ''id'' (JNum (Fin 3)) fmempty ++\<^sub>f spread (Some carol)) ''id''
       = Some (JNum (Fin 3))
   \<and> fmlookup (fmupd ''id'' (JNum (Fin 3)) fmempty ++\<^sub>f spread (Some carol)) ''name''
       = Some (JStr ''Carol'')"
proof -
  have h: "\<not> readonly default_options" by (simp add: default_options_def)
  have g: "get_items (data example_state) ''users'' = Inr [alice, bob]"
    by (simp add: example_state_def users_state_def get_items_def)
  have n: "newId example_builtins [alice, bob] = Inr (Fin 3)"
    by (simp add: newId_def ToNumber_def id_or_0_def get_prop_id alice_def bob_def Math_max_def
        exact_int_def example_builtins_def)
  have b: "body_id carol = None" by (simp add: body_id_def carol_def)
  have w: "\<not> writeFileSync_throws example_builtins f t" for f t
    by (simp add: example_builtins_def example_writeFileSync_throws_def)
  have d: "data example_state = [(''users'', [alice, bob])]"
    "JSON_stringify example_builtins [(''users'', xs)] = ''{ ... }''" for xs
    by (simp_all add: example_state_def users_state_def example_builtins_def
        example_JSON_stringify_def)
  have c: "fmlookup (spread (Some carol)) ''name'' = Some (JStr ''Carol'')"
    by (simp add: spread_def carol_def)
  note T = create_id_from_body_or_computed [OF h g n refl refl, of carol fresh_response]
  from T have 1: "post_handler example_builtins default_options ''users'' (Some carol)
        fresh_response example_state
       = Inr (sendJson fresh_response 201
                (JObj (fmupd ''id'' (JNum (Fin 3)) fmempty ++\<^sub>f spread (Some carol))),
              \<lparr>data = [(''users'',
                  [alice, bob, fmupd ''id'' (JNum (Fin 3)) fmempty ++\<^sub>f spread (Some carol)])],
               dataFile = Content ''{ ... }''\<rparr>)"
    by (simp add: w d del: fmlookup_add)
  from T have 2: "fmlookup (fmupd ''id'' (JNum (Fin 3)) fmempty ++\<^sub>f spread (Some carol)) ''id''
       = Some (JNum (Fin 3))"
    by (simp add: b del: fmlookup_add)
  from T have "\<forall>k. k \<noteq> ''id'' \<longrightarrow>
      fmlookup (fmupd ''id'' (JNum (Fin 3)) fmempty ++\<^sub>f spread (Some carol)) k
        = fmlookup (spread (Some carol)) k"
    by blast
  then have 3: "fmlookup (fmupd ''id'' (JNum (Fin 3)) fmempty ++\<^sub>f spread (Some carol)) ''name''
       = Some (JStr ''Carol'')"
    by (simp add: c del: fmlookup_add)
  from h g n 1 2 3 show ?thesis by (simp only: simp_thms)
qed

text \<open>
  C1 as stated fails: on the two users with ids 1 and 2 the computed id is 3, and a create
  with the body \<^verbatim>\<open>{"id": 99}\<close> responds 201 with a record whose \<^verbatim>\<open>id\<close> is 99, which is the record
  it stores.
\<close>

theorem create_id_counterexample:
  "newId example_builtins [alice, bob] = Inr (Fin 3)
   \<and> map_sum id (\<lambda>(r, s'). (statusCode r, payload r, data s'))
        (post_handler example_builtins default_options ''users''
           (Some (JObj (fmap_of_list [(''id'', JNum (Fin 99))]))) fresh_response example_state)
       = Inr (201, Some (JObj (fmap_of_list [(''id'', JNum (Fin 99))])),
              [(''users'', [alice, bob, fmap_of_list [(''id'', JNum (Fin 99))]])])"
  by (simp add: post_handler_def Let_def sendJson_sel default_options_def spread_def
      example_state_def users_state_def get_items_def newId_def ToNumber_def id_or_0_def
      get_prop_id alice_def bob_def Math_max_def exact_int_def example_builtins_def
      example_writeFileSync_throws_def saveData_def set_items_def fmap_ext)

section \<open>Replace\<close>

text \<open>
  C2, as amended. On a server that is not read-only, a replace that finds a record (the first
  of the collection whose \<^verbatim>\<open>id\<close>, as a string, is the path segment) either throws at the write
  of the data file, before anything is sent, or responds 200 with the record
  \<^verbatim>\<open>{ id: items[idx].id, ...body }\<close>, stored in place of the old record, the other records and
  the other collections untouched, and written to the file with the rest of the store. The
  fields of the stored record other than \<^verbatim>\<open>id\<close> are those the spread takes from the body, which
  for an object are its own fields: every other field of the old record is dropped. Its \<^verbatim>\<open>id\<close>
  is the one the record had before when the body has no \<^verbatim>\<open>id\<close> field of its own; when the body
  has an \<^verbatim>\<open>id\<close> field, the stored record takes the value of the body.
\<close>

theorem replace_id_from_body_or_original:
  assumes "\<not> readonly opts"
    and "get_items (data s) R = Inr items"
    and "findIndex (id_matches B (Some seg)) items = Some idx"
    and "updated = id_only (items ! idx) ++\<^sub>f spread (Some body)"
    and "stored = AList.update R (items[idx := updated]) (data s)"
  shows "put_handler B opts R (Some seg) (Some body) res s =
           (if writeFileSync_throws B (dataFile s) (JSON_stringify B stored) then Inl WriteError
            else Inr (sendJson res 200 (JObj updated),
                   \<lparr>data = stored, dataFile = Content (JSON_stringify B stored)\<rparr>))
       \<and> statusCode (sendJson res 200 (JObj updated)) = 200
       \<and> payload (sendJson res 200 (JObj updated)) = Some (JObj updated)
       \<and> idx < length items
       \<and> String_prop B (fmlookup (items ! idx) ''id'') = seg
       \<and> (\<forall>j<idx. String_prop B (fmlookup (items ! j) ''id'') \<noteq> seg)
       \<and> get_items stored R = Inr (items[idx := updated])
       \<and> items[idx := updated] ! idx = updated
       \<and> (\<forall>j<length items. j \<noteq> idx \<longrightarrow> items[idx := updated] ! j = items ! j)
       \<and> (\<forall>R'. R' \<noteq> R \<longrightarrow> get_items stored R' = get_items (data s) R')
       \<and> fmlookup updated ''id''
           = (case body_id body of None \<Rightarrow> fmlookup (items ! idx) ''id'' | Some v \<Rightarrow> Some v)
       \<and> (\<forall>k. k \<noteq> ''id'' \<longrightarrow> fmlookup updated k = fmlookup (spread (Some body)) k)
       \<and> (\<forall>m. body = JObj m \<longrightarrow>
            (\<forall>k. fmlookup updated k
                   = (if k = ''id''
                      then (case fmlookup m ''id'' of
                              None \<Rightarrow> fmlookup (items ! idx) ''id''
                            | Some v \<Rightarrow> Some v)
                      else fmlookup m k)))"
proof -
  have run: "put_handler B opts R (Some seg) (Some body) res s =
           (if writeFileSync_throws B (dataFile s) (JSON_stringify B stored) then Inl WriteError
            else Inr (sendJson res 200 (JObj updated),
                   \<lparr>data = stored, dataFile = Content (JSON_stringify B stored)\<rparr>))"
    unfolding assms(4,5) by (rule put_handler_rw [OF assms(1-3)])
  from findIndex_Some [OF assms(3)]
  have found: "idx < length items" "String_prop B (fmlookup (items ! idx) ''id'') = seg"
    "\<forall>j<idx. String_prop B (fmlookup (items ! j) ''id'') \<noteq> seg"
    by (auto simp: id_matches_def get_prop_id)
  have only: "fmlookup (id_only old) k = (if k = ''id'' then fmlookup old ''id'' else None)"
    for old k
    by (cases "fmlookup old ''id''") (simp_all add: id_only_def get_prop_id)
  have ident: "fmlookup updated ''id''
           = (case body_id body of None \<Rightarrow> fmlookup (items ! idx) ''id'' | Some v \<Rightarrow> Some v)"
    unfolding assms(4) merge_fields spread_id only by simp
  have rest: "fmlookup updated k = fmlookup (spread (Some body)) k" if "k \<noteq> ''id''" for k
    unfolding assms(4) merge_fields only using that by (simp split: option.splits)
  have obj: "fmlookup updated k
       = (if k = ''id''
          then (case fmlookup m ''id'' of None \<Rightarrow> fmlookup (items ! idx) ''id'' | Some v \<Rightarrow> Some v)
          else fmlookup m k)" if "body = JObj m" for m k
  proof (cases "k = ''id''")
    case True
    with ident that show ?thesis by (simp add: body_id_def)
  next
    case False
    with rest [OF False] that show ?thesis by (simp add: spread_def)
  qed
  have mine: "get_items stored R = Inr (items[idx := updated])"
    unfolding assms(5) by (rule get_items_update)
  have others: "get_items stored R' = get_items (data s) R'" if "R' \<noteq> R" for R'
    unfolding assms(5) using that by (rule get_items_update_other)
  have at: "items[idx := updated] ! idx = updated" using found(1) by simp
  have off: "\<forall>j<length items. j \<noteq> idx \<longrightarrow> items[idx := updated] ! j = items ! j" by simp
  show ?thesis
    apply (rule conjI [OF run])
    apply (rule conjI [OF sendJson_sel(1)])
    apply (rule conjI [OF sendJson_sel(2)])
    apply (rule conjI [OF found(1)])
    apply (rule conjI [OF found(2)])
    apply (rule conjI [OF found(3)])
    apply (rule conjI [OF mine])
    apply (rule conjI [OF at])
    apply (rule conjI [OF off])
    apply (rule conjI)
     apply (simp add: others)
    apply (rule conjI [OF ident])
    apply (rule conjI)
     apply (simp add: rest)
    apply (simp add: obj)
    done
qed

theorem replace_id_from_body_or_original_witness:
  "\<not> readonly default_options
   \<and> get_items (data example_state) ''users'' = Inr [alice, bob]
   \<and> findIndex (id_matches example_builtins (Some ''2'')) [alice, bob] = Some 1
   \<and> put_handler example_builtins default_options ''users'' (Some ''2'') (Some carol)
        fresh_response example_state
       = Inr (sendJson fresh_response 200 (JObj (id_only bob ++\<^sub>f spread (Some carol))),
              \<lparr>data = [(''users'', [alice, id_only bob ++\<^sub>f spread (Some carol)])],
               dataFile = Content ''{ ... }''\<rparr>)
   \<and> fmlookup (id_only bob ++\<^sub>f spread (Some carol)) ''id'' = Some (JNum (Fin 2))
   \<and> fmlookup (id_only bob ++\<^sub>f spread (Some carol)) ''name'' = Some (JStr ''Carol'')
   \<and> fmlookup (id_only bob ++\<^sub>f spread (Some carol)) ''role'' = None
   \<and> fmlookup bob ''role'' = Some (JStr ''user'')"
proof -
  have h: "\<not> readonly default_options" by (simp add: default_options_def)
  have g: "get_items (data example_state) ''users'' = Inr [alice, bob]"
    by (simp add: example_state_def users_state_def get_items_def)
  have f: "findIndex (id_matches example_builtins (Some ''2'')) [alice, bob] = Some 1"
    by (simp add: id_matches_def get_prop_id alice_def bob_def String_prop_def exact_int_def
        string_of_int_def digits.simps)
  have b: "body_id carol = None" by (simp add: body_id_def carol_def)
  have w: "\<not> writeFileSync_throws example_builtins f t" for f t
    by (simp add: example_builtins_def example_writeFileSync_throws_def)
  have d: "data example_state = [(''users'', [alice, bob])]"
    "JSON_stringify example_builtins [(''users'', xs)] = ''{ ... }''" for xs
    by (simp_all add: example_state_def users_state_def example_builtins_def
        example_JSON_stringify_def)
  have c: "fmlookup (spread (Some carol)) ''name'' = Some (JStr ''Carol'')"
    "fmlookup (spread (Some carol)) ''role'' = None"
    by (simp_all add: spread_def carol_def)
  have o: "fmlookup bob ''id'' = Some (JNum (Fin 2))" "fmlookup bob ''role'' = Some (JStr ''user'')"
    by (simp_all add: bob_def)
  note T = replace_id_from_body_or_original [OF h g f refl refl, of carol fresh_response]
  from T have 1: "put_handler example_builtins default_options ''users'' (Some ''2'') (Some carol)
        fresh_response example_state
       = Inr (sendJson fresh_response 200 (JObj (id_only bob ++\<^sub>f spread (Some carol))),
              \<lparr>data = [(''users'', [alice, id_only bob ++\<^sub>f spread (Some carol)])],
               dataFile = Content ''{ ... }''\<rparr>)"
    by (simp add: w d del: fmlookup_add)
  from T have 2: "fmlookup (id_only bob ++\<^sub>f spread (Some carol)) ''id'' = Some (JNum (Fin 2))"
    by (simp add: b o del: fmlookup_add)
  from T have r: "\<forall>k. k \<noteq> ''id'' \<longrightarrow>
      fmlookup (id_only ([alice, bob] ! 1) ++\<^sub>f spread (Some carol)) k
        = fmlookup (spread (Some carol)) k"
    by blast
  from r have 3: "fmlookup (id_only bob ++\<^sub>f spread (Some carol)) ''name'' = Some (JStr ''Carol'')"
    by (simp add: c del: fmlookup_add)
  from r have 4: "fmlookup (id_only bob ++\<^sub>f spread (Some carol)) ''role'' = None"
    by (simp add: c del: fmlookup_add)
  from h g f 1 2 3 4 o(2) show ?thesis by (simp only: simp_thms)
qed

text \<open>
  C2 as stated fails: a replace of the user with \<^verbatim>\<open>id\<close> 1, with the body \<^verbatim>\<open>{"id": 2}\<close>, responds
  200, and the record that had \<^verbatim>\<open>id\<close> 1 is stored with \<^verbatim>\<open>id\<close> 2.
\<close>

theorem replace_id_counterexample:
  "fmlookup alice ''id'' = Some (JNum (Fin 1))
   \<and> map_sum id (\<lambda>(r, s'). (statusCode r, payload r, data s'))
        (put_handler example_builtins default_options ''users'' (Some ''1'')
           (Some (JObj (fmap_of_list [(''id'', JNum (Fin 2))]))) fresh_response example_state)
       = Inr (200, Some (JObj (fmap_of_list [(''id'', JNum (Fin 2))])),
              [(''users'', [fmap_of_list [(''id'', JNum (Fin 2))], bob])])"
  by (simp add: put_handler_def Let_def sendJson_sel default_options_def spread_def
      example_state_def users_state_def get_items_def id_matches_def String_prop_def
      string_of_int_def digits.simps id_only_def get_prop_id alice_def bob_def exact_int_def
      example_builtins_def example_writeFileSync_throws_def saveData_def set_items_def fmap_ext)

section \<open>The computed id\<close>















section \<open>The list operation\<close>






section \<open>Pagination\<close>




section \<open>Read-only mode\<close>

text \<open>
  C6, as amended. When the server is read-only, every \<^verbatim>\<open>POST\<close>, \<^verbatim>\<open>PUT\<close>, \<^verbatim>\<open>PATCH\<close> or \<^verbatim>\<open>DELETE\<close>
  request to a generated route is answered, and leaves the in-memory store and the backing
  file unchanged. It is answered with 403 and the read-only error when it is a \<^verbatim>\<open>DELETE\<close>, or
  when its body is empty or parses; a \<^verbatim>\<open>POST\<close>, \<^verbatim>\<open>PUT\<close> or \<^verbatim>\<open>PATCH\<close> whose body does not parse is
  answered with 400, since the body is parsed before the handler and its read-only guard are
  reached.
\<close>

theorem readonly_refuses_mutation:
  assumes "readonly opts"
    and "reqMethod req \<in> set [''POST'', ''PUT'', ''PATCH'', ''DELETE'']"
    and "find_route B (generate_routes d) (reqMethod req) (request_path req) = Some (rt, pid)"
  shows "handleRequest B opts (generate_routes d) req s
           = Inr (if reqMethod req \<noteq> ''DELETE'' \<and> parse_body B (bodyText req) = None
                  then sendJson (start_response opts) 400 (error_body ''Invalid JSON'')
                  else sendJson (start_response opts) 403 readonly_error,
                  s)
       \<and> statusCode (if reqMethod req \<noteq> ''DELETE'' \<and> parse_body B (bodyText req) = None
                  then sendJson (start_response opts) 400 (error_body ''Invalid JSON'')
                  else sendJson (start_response opts) 403 readonly_error)
           = (if reqMethod req = ''DELETE'' then 403
              else if parse_body B (bodyText req) = None then 400
              else 403)"
proof -
  from find_route_Some [OF assms(3)]
  have rt: "rt \<in> set (generate_routes d)" "route_method rt = reqMethod req" by simp_all
  from generated_route [OF rt(1)] obtain r where r: "rt \<in> set (routes_for r)" ..
  from routes_for_handler [OF r] rt(2) assms(2)
  have h: "handler rt = Create r \<or> handler rt = Replace r \<or> handler rt = Update r
         \<or> handler rt = Delete r"
    by auto
  note forbidden = run_handler_readonly [OF assms(1) h]
  from assms(2) have no: "reqMethod req \<noteq> ''OPTIONS''" by auto
  note routed = handleRequest_routed [OF no assms(3)]
  have run: "handleRequest B opts (generate_routes d) req s
           = Inr (if reqMethod req \<noteq> ''DELETE'' \<and> parse_body B (bodyText req) = None
                  then sendJson (start_response opts) 400 (error_body ''Invalid JSON'')
                  else sendJson (start_response opts) 403 readonly_error,
                  s)"
  proof (cases "reqMethod req = ''DELETE''")
    case True
    then show ?thesis by (simp add: routed forbidden)
  next
    case False
    with assms(2) have "reqMethod req \<in> set [''POST'', ''PUT'', ''PATCH'']" by auto
    with False show ?thesis
      by (cases "parse_body B (bodyText req)") (simp_all add: routed forbidden)
  qed
  have st: "statusCode (if reqMethod req \<noteq> ''DELETE'' \<and> parse_body B (bodyText req) = None
                  then sendJson (start_response opts) 400 (error_body ''Invalid JSON'')
                  else sendJson (start_response opts) 403 readonly_error)
           = (if reqMethod req = ''DELETE'' then 403
              else if parse_body B (bodyText req) = None then 400
              else 403)"
    by (simp add: sendJson_sel)
  from run st show ?thesis by (rule conjI)
qed

theorem readonly_refuses_mutation_witness:
  "readonly readonly_options
   \<and> handleRequest example_builtins readonly_options (generate_routes (data example_state))
        delete_request example_state
       = Inr (sendJson (start_response readonly_options) 403 readonly_error, example_state)
   \<and> handleRequest example_builtins readonly_options (generate_routes (data example_state))
        empty_post example_state
       = Inr (sendJson (start_response readonly_options) 403 readonly_error, example_state)
   \<and> statusCode (sendJson (start_response readonly_options) 403 readonly_error) = 403"
proof -
  have ro: "readonly readonly_options" by (simp add: readonly_options_def)
  have m1: "reqMethod delete_request \<in> set [''POST'', ''PUT'', ''PATCH'', ''DELETE'']"
    by (simp add: delete_request_def users_request_def)
  have m2: "reqMethod empty_post \<in> set [''POST'', ''PUT'', ''PATCH'', ''DELETE'']"
    by (simp add: empty_post_def users_request_def)
  have f1: "find_route example_builtins (generate_routes (data example_state))
      (reqMethod delete_request) (request_path delete_request)
      = Some (\<lparr>route_method = ''DELETE'', path = Item ''users'', handler = Delete ''users''\<rparr>,
              Some ''1'')"
    by (simp add: generate_routes_def routes_for_def example_state_def users_state_def
        delete_request_def users_request_def request_path_def match_path_def regex_special_def
        params_id_def)
  have f2: "find_route example_builtins (generate_routes (data example_state))
      (reqMethod empty_post) (request_path empty_post)
      = Some (\<lparr>route_method = ''POST'', path = Collection ''users'', handler = Create ''users''\<rparr>,
              None)"
    by (simp add: generate_routes_def routes_for_def example_state_def users_state_def
        empty_post_def users_request_def request_path_def match_path_def regex_special_def
        params_id_def)
  have d: "reqMethod delete_request = ''DELETE''"
    by (simp add: delete_request_def users_request_def)
  have p: "reqMethod empty_post \<noteq> ''DELETE''"
    "parse_body example_builtins (bodyText empty_post) \<noteq> None"
    by (simp_all add: empty_post_def users_request_def parse_body_def)
  from readonly_refuses_mutation [OF ro m1 f1, of example_state, THEN conjunct1]
  have 1: "handleRequest example_builtins readonly_options (generate_routes (data example_state))
        delete_request example_state
       = Inr (sendJson (start_response readonly_options) 403 readonly_error, example_state)"
    using d by simp
  from readonly_refuses_mutation [OF ro m2 f2, of example_state, THEN conjunct1]
  have 2: "handleRequest example_builtins readonly_options (generate_routes (data example_state))
        empty_post example_state
       = Inr (sendJson (start_response readonly_options) 403 readonly_error, example_state)"
    using p by simp
  have 3: "statusCode (sendJson (start_response readonly_options) 403 readonly_error) = 403"
    by (simp add: sendJson_sel)
  from ro 1 2 3 show ?thesis by (simp only: simp_thms)
qed

text \<open>
  C6 as stated fails: on a read-only server, \<^verbatim>\<open>POST /users\<close> with the body \<^verbatim>\<open>{\<close> reaches the
  generated create route and is answered with 400, not 403.
\<close>

theorem readonly_counterexample:
  "readonly readonly_options
   \<and> find_route example_builtins (generate_routes (data example_state))
        (reqMethod malformed_post) (request_path malformed_post)
       = Some (\<lparr>route_method = ''POST'', path = Collection ''users'', handler = Create ''users''\<rparr>,
               None)
   \<and> map_sum id (\<lambda>(r, s'). (statusCode r, payload r, s'))
        (handleRequest example_builtins readonly_options (generate_routes (data example_state))
           malformed_post example_state)
       = Inr (400, Some (error_body ''Invalid JSON''), example_state)"
  by (simp add: handleRequest_def Let_def generate_routes_def routes_for_def example_state_def
      users_state_def malformed_post_def users_request_def request_path_def readonly_options_def
      default_options_def parse_body_def example_builtins_def example_JSON_parse_def sendJson_sel
      match_path_def regex_special_def params_id_def)

section \<open>Reloading under watch mode\<close>

lemma after_change_data:
  "data (after_change B s f) = (case parsed_content B f of None \<Rightarrow> data s | Some d \<Rightarrow> d)"
  by (simp add: after_change_def watch_callback_def loadData_def parsed_content_def
      split: file_state.splits option.splits)

lemma after_change_file: "dataFile (after_change B s f) = f"
  by (simp add: after_change_def watch_callback_def loadData_def
      split: file_state.splits option.splits)

lemma reloads_data:
  "data (foldl (after_change B) s fs) = most_recent_valid B (data s) fs"
proof (induction fs arbitrary: s)
  case Nil
  then show ?case by (simp add: most_recent_valid_def)
next
  case (Cons f fs)
  show ?case
  proof (cases "parsed_content B f")
    case None
    with Cons [of "after_change B s f"] show ?thesis
      by (simp add: after_change_data most_recent_valid_def)
  next
    case (Some d)
    with Cons [of "after_change B s f"] show ?thesis
      by (simp add: after_change_data most_recent_valid_def)
  qed
qed

text \<open>
  C7. When the watch callback runs on a file that can be read and whose content parses, the
  in-memory store afterwards is the parsed content, whatever value that is (the content
  \<^verbatim>\<open>null\<close> makes the store \<^verbatim>\<open>null\<close>), and \<^verbatim>\<open>Data reloaded\<close> is logged. When the file is missing,
  cannot be read or does not parse, the store is the one from before; the callback returns
  all the same, having logged the failure. The callback never writes the file. Over any
  sequence of changes of the file, each followed by the callback, the store ends as the most
  recently parsed valid content of the file, or as it was when no content was valid.
\<close>

theorem reload_replaces_or_keeps_store:
  "(\<forall>c d. dataFile s = Content c \<and> JSON_parse_data B c = Some d
       \<longrightarrow> watch_callback B s = (s\<lparr>data := d\<rparr>, ''Data reloaded''))
   \<and> (dataFile s = Missing \<or> dataFile s = Unreadable
        \<or> (\<exists>c. dataFile s = Content c \<and> JSON_parse_data B c = None)
       \<longrightarrow> watch_callback B s = (s, ''Failed to reload data:''))
   \<and> dataFile (fst (watch_callback B s)) = dataFile s
   \<and> data (foldl (after_change B) s fs) = most_recent_valid B (data s) fs
   \<and> (fs \<noteq> [] \<longrightarrow> dataFile (foldl (after_change B) s fs) = last fs)"
proof -
  have 1: "\<forall>c d. dataFile s = Content c \<and> JSON_parse_data B c = Some d
       \<longrightarrow> watch_callback B s = (s\<lparr>data := d\<rparr>, ''Data reloaded'')"
    by (simp add: watch_callback_def loadData_def)
  have 2: "dataFile s = Missing \<or> dataFile s = Unreadable
        \<or> (\<exists>c. dataFile s = Content c \<and> JSON_parse_data B c = None)
       \<longrightarrow> watch_callback B s = (s, ''Failed to reload data:'')"
    by (auto simp: watch_callback_def loadData_def)
  have 3: "dataFile (fst (watch_callback B s)) = dataFile s"
    by (simp add: watch_callback_def loadData_def split: file_state.splits option.splits)
  have 5: "fs \<noteq> [] \<longrightarrow> dataFile (foldl (after_change B) s fs) = last fs"
    by (induction fs arbitrary: s rule: rev_induct) (simp_all add: after_change_file)
  from 1 2 3 reloads_data 5 show ?thesis by (intro conjI)
qed

text \<open>
  A store of two users is replaced by \<^verbatim>\<open>null\<close> when the file has become \<^verbatim>\<open>null\<close>, and is kept
  when the file has become \<^verbatim>\<open>{\<close>, is missing or cannot be read; after the file has been
  \<^verbatim>\<open>[]\<close>, then \<^verbatim>\<open>{\<close>, then missing, the store is the empty array.
\<close>

theorem reload_replaces_or_keeps_store_witness:
  "watch_callback untyped_builtins \<lparr>data = JStr ''old'', dataFile = Content ''null''\<rparr>
     = (\<lparr>data = JNull, dataFile = Content ''null''\<rparr>, ''Data reloaded'')
   \<and> watch_callback untyped_builtins \<lparr>data = JStr ''old'', dataFile = Content ''{''\<rparr>
     = (\<lparr>data = JStr ''old'', dataFile = Content ''{''\<rparr>, ''Failed to reload data:'')
   \<and> watch_callback untyped_builtins \<lparr>data = JStr ''old'', dataFile = Missing\<rparr>
     = (\<lparr>data = JStr ''old'', dataFile = Missing\<rparr>, ''Failed to reload data:'')
   \<and> watch_callback untyped_builtins \<lparr>data = JStr ''old'', dataFile = Unreadable\<rparr>
     = (\<lparr>data = JStr ''old'', dataFile = Unreadable\<rparr>, ''Failed to reload data:'')
   \<and> foldl (after_change untyped_builtins) \<lparr>data = JStr ''old'', dataFile = Content ''null''\<rparr>
        [Content ''[]'', Content ''{'', Missing]
     = \<lparr>data = JArr [], dataFile = Missing\<rparr>"
proof -
  have p: "JSON_parse_data untyped_builtins ''null'' = Some JNull"
    "JSON_parse_data untyped_builtins ''[]'' = Some (JArr [])"
    "JSON_parse_data untyped_builtins ''{'' = None"
    by (simp_all add: untyped_builtins_def example_JSON_parse_def)
  note T = reload_replaces_or_keeps_store [where B = untyped_builtins]
  from T [of "\<lparr>data = JStr ''old'', dataFile = Content ''null''\<rparr>", THEN conjunct1] p(1)
  have 1: "watch_callback untyped_builtins \<lparr>data = JStr ''old'', dataFile = Content ''null''\<rparr>
     = (\<lparr>data = JNull, dataFile = Content ''null''\<rparr>, ''Data reloaded'')"
    by simp
  have 2: "watch_callback untyped_builtins \<lparr>data = JStr ''old'', dataFile = f\<rparr>
     = (\<lparr>data = JStr ''old'', dataFile = f\<rparr>, ''Failed to reload data:'')"
    if "f = Missing \<or> f = Unreadable
        \<or> (\<exists>c. f = Content c \<and> JSON_parse_data untyped_builtins c = None)" for f
    using T [of "\<lparr>data = JStr ''old'', dataFile = f\<rparr>", THEN conjunct2, THEN conjunct1] that
    by simp
  have v: "most_recent_valid untyped_builtins (JStr ''old'') [Content ''[]'', Content ''{'', Missing]
      = JArr []"
    by (simp add: most_recent_valid_def parsed_content_def p)
  from T [of "\<lparr>data = JStr ''old'', dataFile = Content ''null''\<rparr>"
      "[Content ''[]'', Content ''{'', Missing]"]
  have "data (foldl (after_change untyped_builtins)
          \<lparr>data = JStr ''old'', dataFile = Content ''null''\<rparr>
          [Content ''[]'', Content ''{'', Missing]) = JArr []"
    "dataFile (foldl (after_change untyped_builtins)
          \<lparr>data = JStr ''old'', dataFile = Content ''null''\<rparr>
          [Content ''[]'', Content ''{'', Missing]) = Missing"
    by (simp_all add: v)
  then have 3: "foldl (after_change untyped_builtins)
        \<lparr>data = JStr ''old'', dataFile = Content ''null''\<rparr>
        [Content ''[]'', Content ''{'', Missing]
     = \<lparr>data = JArr [], dataFile = Missing\<rparr>"
    by (cases "foldl (after_change untyped_builtins)
        \<lparr>data = JStr ''old'', dataFile = Content ''null''\<rparr>
        [Content ''[]'', Content ''{'', Missing]") simp
  from 1 2 [of "Content ''{''"] 2 [of Missing] 2 [of Unreadable] 3 p(3) show ?thesis by simp
qed

section \<open>Malformed bodies\<close>

text \<open>
  C8, as amended. A \<^verbatim>\<open>POST\<close>, \<^verbatim>\<open>PUT\<close> or \<^verbatim>\<open>PATCH\<close> request that matches a route and whose body is
  not empty and does not parse is answered with 400 \<^verbatim>\<open>{error: "Invalid JSON"}\<close>; the handler of
  the route is not invoked, and the store and the backing file are left as they were. An
  empty body is not parsed: the handler of the route is invoked with \<^verbatim>\<open>{}\<close>. A body that parses
  is handed to the handler as parsed.
\<close>

theorem malformed_body_rejected:
  assumes "reqMethod req \<in> set [''POST'', ''PUT'', ''PATCH'']"
    and "find_route B routes (reqMethod req) (request_path req) = Some (rt, pid)"
  shows "(bodyText req \<noteq> [] \<and> JSON_parse B (bodyText req) = None \<longrightarrow>
            handleRequest B opts routes req s
              = Inr (sendJson (start_response opts) 400 (error_body ''Invalid JSON''), s)
            \<and> statusCode (sendJson (start_response opts) 400 (error_body ''Invalid JSON'')) = 400
            \<and> payload (sendJson (start_response opts) 400 (error_body ''Invalid JSON''))
                = Some (JObj (fmupd ''error'' (JStr ''Invalid JSON'') fmempty)))
       \<and> (bodyText req = [] \<longrightarrow>
            handleRequest B opts routes req s
              = run_handler B opts (handler rt) req pid (Some (JObj fmempty)) (start_response opts) s)
       \<and> (\<forall>v. bodyText req \<noteq> [] \<and> JSON_parse B (bodyText req) = Some v \<longrightarrow>
            handleRequest B opts routes req s
              = run_handler B opts (handler rt) req pid (Some v) (start_response opts) s)"
proof -
  from assms(1) have no: "reqMethod req \<noteq> ''OPTIONS''" by auto
  note routed = handleRequest_routed [OF no assms(2)]
  from assms(1) show ?thesis
    by (simp add: routed parse_body_def sendJson_sel error_body_def)
qed

theorem malformed_body_rejected_witness:
  "reqMethod malformed_post \<in> set [''POST'', ''PUT'', ''PATCH'']
   \<and> bodyText malformed_post \<noteq> []
   \<and> JSON_parse example_builtins (bodyText malformed_post) = None
   \<and> handleRequest example_builtins default_options (generate_routes (data example_state))
        malformed_post example_state
       = Inr (sendJson (start_response default_options) 400 (error_body ''Invalid JSON''),
              example_state)
   \<and> bodyText empty_post = []
   \<and> handleRequest example_builtins default_options (generate_routes (data example_state))
        empty_post example_state
       = post_handler example_builtins default_options ''users'' (Some (JObj fmempty))
           (start_response default_options) example_state"
proof -
  have m: "reqMethod malformed_post \<in> set [''POST'', ''PUT'', ''PATCH'']"
    "reqMethod empty_post \<in> set [''POST'', ''PUT'', ''PATCH'']"
    by (simp_all add: malformed_post_def empty_post_def users_request_def)
  have f: "find_route example_builtins (generate_routes (data example_state))
      (reqMethod malformed_post) (request_path malformed_post)
      = Some (\<lparr>route_method = ''POST'', path = Collection ''users'', handler = Create ''users''\<rparr>,
              None)"
    "find_route example_builtins (generate_routes (data example_state))
      (reqMethod empty_post) (request_path empty_post)
      = Some (\<lparr>route_method = ''POST'', path = Collection ''users'', handler = Create ''users''\<rparr>,
              None)"
    by (simp_all add: generate_routes_def routes_for_def example_state_def users_state_def
        malformed_post_def empty_post_def users_request_def request_path_def match_path_def
        regex_special_def params_id_def)
  have b: "bodyText malformed_post \<noteq> []"
    "JSON_parse example_builtins (bodyText malformed_post) = None"
    "bodyText empty_post = []"
    by (simp_all add: malformed_post_def empty_post_def users_request_def example_builtins_def
        example_JSON_parse_def)
  from malformed_body_rejected [OF m(1) f(1), of default_options example_state] b(1,2)
  have 1: "handleRequest example_builtins default_options (generate_routes (data example_state))
        malformed_post example_state
       = Inr (sendJson (start_response default_options) 400 (error_body ''Invalid JSON''),
              example_state)"
    by blast
  from malformed_body_rejected [OF m(2) f(2), of default_options example_state] b(3)
  have "handleRequest example_builtins default_options (generate_routes (data example_state))
        empty_post example_state
       = run_handler example_builtins default_options (Create ''users'') empty_post None
           (Some (JObj fmempty)) (start_response default_options) example_state"
    by simp
  then have 2: "handleRequest example_builtins default_options
        (generate_routes (data example_state)) empty_post example_state
       = post_handler example_builtins default_options ''users'' (Some (JObj fmempty))
           (start_response default_options) example_state"
    by (simp add: run_handler_def)
  from m(1) b 1 2 show ?thesis by (simp only: simp_thms)
qed

text \<open>
  C8 as stated fails: the empty body is not valid JSON, yet \<^verbatim>\<open>POST /users\<close> with an empty
  body is not answered with 400; the create handler runs with \<^verbatim>\<open>{}\<close>, responds 201 and stores a
  third user.
\<close>

theorem empty_body_counterexample:
  "bodyText empty_post = []
   \<and> JSON_parse example_builtins (bodyText empty_post) = None
   \<and> map_sum id (\<lambda>(r, s'). (statusCode r, payload r, data s'))
        (handleRequest example_builtins default_options (generate_routes (data example_state))
           empty_post example_state)
       = Inr (201, Some (JObj (fmap_of_list [(''id'', JNum (Fin 3))])),
              [(''users'', [alice, bob, fmap_of_list [(''id'', JNum (Fin 3))]])])"
  by (simp add: handleRequest_def Let_def generate_routes_def routes_for_def example_state_def
      users_state_def empty_post_def users_request_def request_path_def default_options_def
      parse_body_def example_builtins_def example_JSON_parse_def sendJson_sel
      match_path_def regex_special_def params_id_def run_handler_def
      post_handler_def spread_def get_items_def newId_def ToNumber_def id_or_0_def
      get_prop_id alice_def bob_def Math_max_def exact_int_def
      example_writeFileSync_throws_def saveData_def set_items_def fmap_ext)

section \<open>Update\<close>




section \<open>OPTIONS requests\<close>

text \<open>
  C10. Every \<^verbatim>\<open>OPTIONS\<close> request is answered with 204 and no body before any routing, whether
  cross-origin support is enabled or not: the answer does not depend on the route table
  (it is the one given with an empty table, so it is never the 404 of an unmatched route), no
  handler runs, the state is unchanged, and disabling \<^verbatim>\<open>cors\<close> only leaves out the cross-origin
  headers.
\<close>

theorem options_short_circuit:
  assumes "reqMethod req = ''OPTIONS''"
  shows "handleRequest B opts routes req s = Inr ((start_response opts)\<lparr>statusCode := 204\<rparr>, s)
       \<and> statusCode ((start_response opts)\<lparr>statusCode := 204\<rparr>) = 204
       \<and> payload ((start_response opts)\<lparr>statusCode := 204\<rparr>) = None
       \<and> headers ((start_response opts)\<lparr>statusCode := 204\<rparr>)
           = (if cors opts then headers (cors_headers fresh_response) else [])
       \<and> handleRequest B opts routes req s = handleRequest B opts [] req s"
  using assms
  by (simp add: handleRequest_def Let_def start_response_def fresh_response_def cors_headers_def
      setHeader_def)

theorem options_short_circuit_witness:
  "reqMethod options_request = ''OPTIONS''
   \<and> handleRequest example_builtins no_cors_options (generate_routes (data example_state))
        options_request example_state
       = Inr (\<lparr>statusCode = 204, headers = [], payload = None\<rparr>, example_state)
   \<and> map_sum id (\<lambda>(r, s'). (statusCode r, payload r,
          map_of (headers r) ''Access-Control-Allow-Origin'', s'))
        (handleRequest example_builtins default_options (generate_routes (data example_state))
           options_request example_state)
       = Inr (204, None, Some ''*'', example_state)"
proof -
  have h: "reqMethod options_request = ''OPTIONS''"
    by (simp add: options_request_def users_request_def)
  note off = options_short_circuit [OF h, of example_builtins no_cors_options
      "generate_routes (data example_state)" example_state, THEN conjunct1]
  note on = options_short_circuit [OF h, of example_builtins default_options
      "generate_routes (data example_state)" example_state, THEN conjunct1]
  have 1: "handleRequest example_builtins no_cors_options (generate_routes (data example_state))
        options_request example_state
       = Inr (\<lparr>statusCode = 204, headers = [], payload = None\<rparr>, example_state)"
    unfolding off
    by (simp add: start_response_def no_cors_options_def default_options_def fresh_response_def)
  have 2: "map_sum id (\<lambda>(r, s'). (statusCode r, payload r,
          map_of (headers r) ''Access-Control-Allow-Origin'', s'))
        (handleRequest example_builtins default_options (generate_routes (data example_state))
           options_request example_state)
       = Inr (204, None, Some ''*'', example_state)"
    unfolding on
    by (simp add: start_response_def default_options_def fresh_response_def cors_headers_def
        setHeader_def)
  from h 1 2 show ?thesis by (simp only: simp_thms)
qed

end
